theory Spec2Isabelle
  imports Complex_Main
begin

section \<open>Python values\<close>

text \<open>
  The functions of \<^verbatim>\<open>huuto.py\<close> take untyped Python arguments and test them for
  truthiness, for identity with \<^verbatim>\<open>None\<close>, for their class and for equality with
  literals. The values are modelled by one datatype. A float carries the real number
  it denotes (the claims only look at whether it is zero or equal to a small integer);
  a dictionary is an association list with string keys, in insertion order.
\<close>

datatype pyval =
    PNone
  | PBool bool
  | PInt int
  | PFloat real
  | PStr string
  | PList "pyval list"
  | PDict "(string \<times> pyval) list"

text \<open>\<^verbatim>\<open>bool(v)\<close>, the test made by \<^verbatim>\<open>if v:\<close> and \<^verbatim>\<open>if not v:\<close>.\<close>

fun truthy :: "pyval \<Rightarrow> bool" where
  "truthy PNone = False"
| "truthy (PBool b) = b"
| "truthy (PInt i) = (i \<noteq> 0)"
| "truthy (PFloat r) = (r \<noteq> 0)"
| "truthy (PStr s) = (s \<noteq> [])"
| "truthy (PList xs) = (xs \<noteq> [])"
| "truthy (PDict kvs) = (kvs \<noteq> [])"

text \<open>\<^verbatim>\<open>v == i\<close> for an int literal \<^verbatim>\<open>i\<close>: bools and floats compare by value.\<close>

fun py_eq_int :: "pyval \<Rightarrow> int \<Rightarrow> bool" where
  "py_eq_int (PBool b) i = ((if b then 1 else 0) = i)"
| "py_eq_int (PInt j) i = (j = i)"
| "py_eq_int (PFloat r) i = (r = of_int i)"
| "py_eq_int v i = False"

text \<open>\<^verbatim>\<open>v == s\<close> for a string literal \<^verbatim>\<open>s\<close>.\<close>

fun py_eq_str :: "pyval \<Rightarrow> string \<Rightarrow> bool" where
  "py_eq_str (PStr t) s = (t = s)"
| "py_eq_str v s = False"

text \<open>\<^verbatim>\<open>v in [i1, i2, ...]\<close> and \<^verbatim>\<open>v in ['s1', 's2', ...]\<close> for lists of literals.\<close>

definition in_ints :: "pyval \<Rightarrow> int list \<Rightarrow> bool" where
  "in_ints v is = list_ex (py_eq_int v) is"

definition in_strs :: "pyval \<Rightarrow> string list \<Rightarrow> bool" where
  "in_strs v ss = list_ex (py_eq_str v) ss"

text \<open>
  \<^verbatim>\<open>v in range(lo, hi)\<close>: an int or bool is compared with the bounds; any other value is
  compared with each element of the range in turn, so a float is a member when it is a
  whole number within the bounds, and strings, lists and \<^verbatim>\<open>None\<close> never are.
\<close>

fun in_range :: "pyval \<Rightarrow> int \<Rightarrow> int \<Rightarrow> bool" where
  "in_range (PBool b) lo hi = (lo \<le> (if b then 1 else 0) \<and> (if b then 1 else 0) < hi)"
| "in_range (PInt j) lo hi = (lo \<le> j \<and> j < hi)"
| "in_range (PFloat r) lo hi = (of_int lo \<le> r \<and> r < of_int hi \<and> of_int \<lfloor>r\<rfloor> = r)"
| "in_range v lo hi = False"

text \<open>\<^verbatim>\<open>isinstance(v, int)\<close> (\<^verbatim>\<open>bool\<close> is a subclass of \<^verbatim>\<open>int\<close>) and \<^verbatim>\<open>isinstance(v, list)\<close>.\<close>

datatype pytype = Int_type | List_type

definition isinstance :: "pyval \<Rightarrow> pytype \<Rightarrow> bool" where
  "isinstance v t =
     (case t of
        Int_type \<Rightarrow> (case v of PBool b \<Rightarrow> True | PInt i \<Rightarrow> True | _ \<Rightarrow> False)
      | List_type \<Rightarrow> (case v of PList xs \<Rightarrow> True | _ \<Rightarrow> False))"


section \<open>Requests, responses and exceptions\<close>

datatype http_method = GET | POST | PUT | DELETE

text \<open>
  The body of a request: \<^verbatim>\<open>requests.post\<close> is called either with \<^verbatim>\<open>data=\<close> (form
  encoded) or with \<^verbatim>\<open>json=\<close>. The field \<open>request_method\<close> of a request is
  \<^verbatim>\<open>resp.request.method\<close> of the source.
\<close>

datatype payload = No_payload | Form_data pyval | Json_data pyval

record request =
  request_method :: http_method
  url :: string
  params :: pyval
  headers :: "(string \<times> string) list"
  payload :: payload
  files :: pyval

record response =
  status_code :: int
  content :: string
  request :: request

text \<open>
  The exception classes of \<^verbatim>\<open>huuto.py\<close> (lines 24 to 45) and the built-in ones the code
  raises. The Api errors are raised with a message formatted from the request's method
  and path and the status code; the model keeps the request and the status code. An
  exception raised inside a library (\<^verbatim>\<open>requests\<close>, \<^verbatim>\<open>json\<close>, \<^verbatim>\<open>dateutil\<close>,
  \<^verbatim>\<open>float\<close>) that is none of the others is a \<open>LibraryError\<close>.
\<close>

datatype error =
    ApiError request int
  | ApiUnauthorizedError request int
  | ApiForbiddenError request int
  | ApiNotFoundError request int
  | ApiBadRequestError request int
  | ApiNotImplementedError request int
  | KeyError string
  | TypeError string
  | ValueError string
  | AttributeError string
  | LibraryError string

text \<open>
  The class hierarchy: the five specific Api errors derive from \<open>ApiError\<close>, so an
  \<^verbatim>\<open>except ApiError\<close> catches each of them.
\<close>

fun is_ApiError :: "error \<Rightarrow> bool" where
  "is_ApiError (ApiError rq st) = True"
| "is_ApiError (ApiUnauthorizedError rq st) = True"
| "is_ApiError (ApiForbiddenError rq st) = True"
| "is_ApiError (ApiNotFoundError rq st) = True"
| "is_ApiError (ApiBadRequestError rq st) = True"
| "is_ApiError (ApiNotImplementedError rq st) = True"
| "is_ApiError e = False"


section \<open>The response validator\<close>

text \<open>
  \<^verbatim>\<open>status_code in accepted_status_codes\<close>, for the int \<^verbatim>\<open>status_code\<close> of a response.
  The callers pass a list; a dictionary is searched by its keys (strings here), a string
  refuses an int on the left, and any other value is not iterable.
\<close>

fun status_in :: "int \<Rightarrow> pyval \<Rightarrow> error + bool" where
  "status_in st (PList xs) = Inr (list_ex (\<lambda>x. py_eq_int x st) xs)"
| "status_in st (PDict kvs) = Inr False"
| "status_in st v = Inl (TypeError ''in'')"

text \<open>
  \<^verbatim>\<open>validate_response\<close> (lines 263 to 297). The first membership test only guards
  diagnostic printing, which the model leaves out, but it is evaluated first and can
  raise. The five specific codes are tested next, without looking at the accepted codes.
\<close>

definition validate_response :: "response \<Rightarrow> pyval \<Rightarrow> error + unit" where
  "validate_response resp accepted_status_codes =
     (case status_in (status_code resp) accepted_status_codes of
        Inl e \<Rightarrow> Inl e
      | Inr printed \<Rightarrow>
          if status_code resp = 400 then Inl (ApiBadRequestError (request resp) (status_code resp))
          else if status_code resp = 401 then Inl (ApiUnauthorizedError (request resp) (status_code resp))
          else if status_code resp = 403 then Inl (ApiForbiddenError (request resp) (status_code resp))
          else if status_code resp = 404 then Inl (ApiNotFoundError (request resp) (status_code resp))
          else if status_code resp = 501 then Inl (ApiNotImplementedError (request resp) (status_code resp))
          else (case status_in (status_code resp) accepted_status_codes of
                  Inl e \<Rightarrow> Inl e
                | Inr accepted \<Rightarrow>
                    if \<not> accepted then Inl (ApiError (request resp) (status_code resp))
                    else Inr ()))"

text \<open>The exception class that \<^verbatim>\<open>validate_response\<close> chooses for a status code that is
  not accepted, as the chain of tests in lines 286 to 297 reads.\<close>

definition error_of_status :: "request \<Rightarrow> int \<Rightarrow> error" where
  "error_of_status rq st =
     (if st = 400 then ApiBadRequestError rq st
      else if st = 401 then ApiUnauthorizedError rq st
      else if st = 403 then ApiForbiddenError rq st
      else if st = 404 then ApiNotFoundError rq st
      else if st = 501 then ApiNotImplementedError rq st
      else ApiError rq st)"


section \<open>The configuration file and the outside world\<close>

text \<open>
  \<^verbatim>\<open>huuto_config.ini\<close> is read with \<^verbatim>\<open>configparser\<close> at every access: a list of
  sections, each a list of options with string values. Option values are taken as they
  are stored. A missing file reads as no sections.
\<close>

type_synonym config_section = "(string \<times> string) list"
type_synonym config_file = "(string \<times> config_section) list"

text \<open>What a call does to the outside: the HTTP requests it issues and the
  configuration files it writes, in order.\<close>

datatype event = Sent request | Wrote config_file

record world =
  cfg :: config_file
  trace :: "event list"

text \<open>
  What the code takes from outside the repository. \<open>http\<close> is the remote service
  behind \<^verbatim>\<open>requests.get/post/put/delete\<close>: given what happened so far and the
  request, it raises or answers with a status code and a body. \<open>json_loads\<close> is
  \<^verbatim>\<open>json.loads\<close> of the decoded body, \<open>parse\<close> is \<^verbatim>\<open>dateutil.parser.parse\<close>,
  \<open>utcnow\<close> is the clock read by \<^verbatim>\<open>datetime.datetime.now(datetime.timezone.utc)\<close>,
  \<open>strptime_ok s f\<close> says whether \<^verbatim>\<open>time.strptime(s, f)\<close> returns (it raises
  \<^verbatim>\<open>ValueError\<close> otherwise), \<open>py_float\<close> is the built-in \<^verbatim>\<open>float\<close> and \<open>py_str\<close>
  the built-in \<^verbatim>\<open>str\<close>.
\<close>

datatype datetime = Naive int | Aware int

record env =
  http :: "event list \<Rightarrow> request \<Rightarrow> error + int \<times> string"
  json_loads :: "string \<Rightarrow> error + pyval"
  parse :: "string \<Rightarrow> error + datetime"
  utcnow :: int
  strptime_ok :: "string \<Rightarrow> string \<Rightarrow> bool"
  py_float :: "pyval \<Rightarrow> error + real"
  py_str :: "pyval \<Rightarrow> string"

text \<open>\<^verbatim>\<open>d[k]\<close> on a value: a dictionary raises \<^verbatim>\<open>KeyError\<close> for a missing key, and a
  string key on anything else is a \<^verbatim>\<open>TypeError\<close>.\<close>

fun py_getitem :: "pyval \<Rightarrow> string \<Rightarrow> error + pyval" where
  "py_getitem (PDict kvs) k = (case map_of kvs k of None \<Rightarrow> Inl (KeyError k) | Some v \<Rightarrow> Inr v)"
| "py_getitem v k = Inl (TypeError ''subscript'')"

text \<open>\<^verbatim>\<open>cfg[name]\<close> and \<^verbatim>\<open>section[option]\<close> of \<^verbatim>\<open>configparser\<close>.\<close>

definition cfg_getitem :: "('k \<times> 'v) list \<Rightarrow> 'k \<Rightarrow> string \<Rightarrow> error + 'v" where
  "cfg_getitem kvs k name = (case map_of kvs k of None \<Rightarrow> Inl (KeyError name) | Some v \<Rightarrow> Inr v)"

text \<open>\<^verbatim>\<open>config\<close> (lines 51 to 55), \<^verbatim>\<open>token\<close> (58 to 63), \<^verbatim>\<open>userid\<close> (66 to 71) and
  \<^verbatim>\<open>get_token_data\<close> (74 to 79).\<close>

definition config :: "world \<Rightarrow> error + config_section" where
  "config w = cfg_getitem (cfg w) ''Huuto.net'' ''Huuto.net''"

definition get_token_data :: "world \<Rightarrow> error + config_section" where
  "get_token_data w = cfg_getitem (cfg w) ''token'' ''token''"

definition token :: "world \<Rightarrow> error + string" where
  "token w =
     (case cfg_getitem (cfg w) ''token'' ''token'' of
        Inl e \<Rightarrow> Inl e
      | Inr sec \<Rightarrow> cfg_getitem sec ''token'' ''token'')"

definition userid :: "world \<Rightarrow> error + string" where
  "userid w =
     (case cfg_getitem (cfg w) ''token'' ''token'' of
        Inl e \<Rightarrow> Inl e
      | Inr sec \<Rightarrow> cfg_getitem sec ''userid'' ''userid'')"

text \<open>\<^verbatim>\<open>cfg['token'] = {...}\<close>: an existing section is emptied and refilled in its
  place, a new one is added at the end.\<close>

fun set_section :: "config_file \<Rightarrow> string \<Rightarrow> config_section \<Rightarrow> config_file" where
  "set_section [] name sec = [(name, sec)]"
| "set_section ((n, s) # rest) name sec =
     (if n = name then (n, sec) # rest else (n, s) # set_section rest name sec)"

text \<open>The value \<^verbatim>\<open>configparser\<close> stores for an option: \<^verbatim>\<open>str(v)\<close>, and a \<^verbatim>\<open>TypeError\<close>
  for \<^verbatim>\<open>None\<close>.\<close>

definition option_value :: "env \<Rightarrow> pyval \<Rightarrow> error + string" where
  "option_value env v =
     (case v of
        PNone \<Rightarrow> Inl (TypeError ''option values must be strings'')
      | PStr s \<Rightarrow> Inr s
      | _ \<Rightarrow> Inr (py_str env v))"

text \<open>\<^verbatim>\<open>update_token\<close> (lines 82 to 93): the section is built in the order userid,
  token, start_time, expires, and the file is written after it.\<close>

definition update_token :: "env \<Rightarrow> pyval \<Rightarrow> pyval \<Rightarrow> pyval \<Rightarrow> pyval \<Rightarrow> world \<Rightarrow> (error + unit) \<times> world" where
  "update_token env tok start_time expires uid w =
     (case option_value env uid of
        Inl e \<Rightarrow> (Inl e, w)
      | Inr uid_s \<Rightarrow>
     (case option_value env tok of
        Inl e \<Rightarrow> (Inl e, w)
      | Inr tok_s \<Rightarrow>
     (case option_value env start_time of
        Inl e \<Rightarrow> (Inl e, w)
      | Inr start_s \<Rightarrow>
     (case option_value env expires of
        Inl e \<Rightarrow> (Inl e, w)
      | Inr expires_s \<Rightarrow>
          (let c = set_section (cfg w) ''token''
                     [(''userid'', uid_s), (''token'', tok_s),
                      (''start_time'', start_s), (''expires'', expires_s)]
           in (Inr (), w\<lparr>cfg := c, trace := trace w @ [Wrote c]\<rparr>))))))"

text \<open>\<^verbatim>\<open>_url\<close> (lines 96 to 108).\<close>

definition huuto_api_url :: string where
  "huuto_api_url = ''https://api.huuto.net/1.1''"

definition url_of :: "string \<Rightarrow> string" where
  "url_of path = huuto_api_url @ path"

text \<open>A call of \<^verbatim>\<open>requests.get/post/put/delete\<close>: the request goes out (and is
  recorded), and the library raises or returns the response.\<close>

definition requests_send :: "env \<Rightarrow> request \<Rightarrow> world \<Rightarrow> (error + response) \<times> world" where
  "requests_send env rq w =
     (case http env (trace w) rq of
        Inl e \<Rightarrow> (Inl e, w\<lparr>trace := trace w @ [Sent rq]\<rparr>)
      | Inr (st, body) \<Rightarrow>
          (Inr \<lparr>status_code = st, content = body, request = rq\<rparr>,
           w\<lparr>trace := trace w @ [Sent rq]\<rparr>))"

text \<open>
  \<^verbatim>\<open>re.search('/([0-9]{3,8})', s)\<close> followed by \<^verbatim>\<open>match.group(1)\<close>: the leftmost slash
  that is followed by at least three digits, and the digits after it, at most eight.
  \<open>None\<close> when there is no match.
\<close>

definition is_digit :: "char \<Rightarrow> bool" where
  "is_digit c = (c \<in> set ''0123456789'')"

fun search_userid :: "string \<Rightarrow> string option" where
  "search_userid [] = None"
| "search_userid (c # cs) =
     (if c = CHR ''/'' \<and> 3 \<le> length (takeWhile is_digit cs)
      then Some (take 8 (takeWhile is_digit cs))
      else search_userid cs)"


section \<open>The token lifecycle and the transport layer\<close>

text \<open>
  \<^verbatim>\<open>post\<close> (lines 148 to 194) calls \<^verbatim>\<open>authenticate\<close> when \<open>auth\<close> is set, and
  \<^verbatim>\<open>authenticate\<close> calls \<^verbatim>\<open>post\<close> with \<open>auth\<close> unset for the credential exchange. The
  cycle is cut at the headers: \<open>post_send\<close> is the part of \<^verbatim>\<open>post\<close> after the
  headers have been chosen (lines 170 to 194), \<open>authenticate\<close> runs it with the empty
  headers that \<^verbatim>\<open>post\<close> chooses when \<open>auth\<close> is unset, and \<open>post\<close> is lines 164 to 168
  followed by \<open>post_send\<close>. Lemma \<open>post_without_auth\<close> below shows that the call made
  by \<open>authenticate\<close> is \<^verbatim>\<open>post(path, data, False, [200, 201])\<close>.
\<close>

definition post_send ::
  "env \<Rightarrow> string \<Rightarrow> pyval \<Rightarrow> (string \<times> string) list \<Rightarrow> pyval \<Rightarrow> pyval \<Rightarrow> bool \<Rightarrow> world
     \<Rightarrow> (error + pyval) \<times> world" where
  "post_send env path data hdrs accepted_status_codes fls data_as_json w =
     (let accepted_status_codes =
            (if \<not> truthy accepted_status_codes then PList [PInt 200] else accepted_status_codes)
      in case requests_send env
                \<lparr>request_method = POST, url = url_of path, params = PNone, headers = hdrs,
                 payload = (if data_as_json then Json_data data else Form_data data),
                 files = fls\<rparr> w
         of
           (Inl e, w2) \<Rightarrow> (Inl e, w2)
         | (Inr resp, w2) \<Rightarrow>
             (case validate_response resp accepted_status_codes of
                Inl e \<Rightarrow> (Inl e, w2)
              | Inr u \<Rightarrow>
                  (case json_loads env (content resp) of
                     Inl e \<Rightarrow> (Inl e, w2)
                   | Inr contents \<Rightarrow> (Inr contents, w2))))"

text \<open>
  The part of \<^verbatim>\<open>authenticate\<close> that runs when the token has expired (lines 363 to 376):
  the exchange, the user id cut out of the link, and the new token record. The arguments
  of \<^verbatim>\<open>update_token\<close> are evaluated before the call; \<open>token_field response k\<close> is
  \<^verbatim>\<open>response['authentication']['token'][k]\<close>.
\<close>

definition token_field :: "pyval \<Rightarrow> string \<Rightarrow> error + pyval" where
  "token_field response k =
     (case py_getitem response ''authentication'' of
        Inl e \<Rightarrow> Inl e
      | Inr a \<Rightarrow>
          (case py_getitem a ''token'' of
             Inl e \<Rightarrow> Inl e
           | Inr t \<Rightarrow> py_getitem t k))"

definition refresh_token :: "env \<Rightarrow> string \<Rightarrow> string \<Rightarrow> world \<Rightarrow> (error + unit) \<times> world" where
  "refresh_token env username password w =
     (case post_send env ''/authentication''
             (PDict [(''username'', PStr username), (''password'', PStr password)])
             [] (PList [PInt 200, PInt 201]) PNone False w
      of
        (Inl e, w1) \<Rightarrow> (Inl e, w1)
      | (Inr response, w1) \<Rightarrow>
     (case py_getitem response ''links'' of Inl e \<Rightarrow> (Inl e, w1) | Inr links \<Rightarrow>
     (case py_getitem links ''user'' of Inl e \<Rightarrow> (Inl e, w1) | Inr user \<Rightarrow>
     (case user of
        PStr link \<Rightarrow>
          (case search_userid link of
             None \<Rightarrow> (Inl (AttributeError ''group''), w1)
           | Some matched_userid \<Rightarrow>
          (case token_field response ''id'' of Inl e \<Rightarrow> (Inl e, w1) | Inr tid \<Rightarrow>
          (case token_field response ''startTime'' of Inl e \<Rightarrow> (Inl e, w1) | Inr tstart \<Rightarrow>
          (case token_field response ''expires'' of Inl e \<Rightarrow> (Inl e, w1) | Inr texpires \<Rightarrow>
             update_token env tid tstart texpires (PStr matched_userid) w1))))
      | _ \<Rightarrow> (Inl (TypeError ''expected string or bytes-like object''), w1)))))"

text \<open>
  \<^verbatim>\<open>authenticate\<close> (lines 334 to 378) reads the user name and the password first, then
  the token record; it compares the parsed expiry with the clock (a timestamp without a
  time zone cannot be compared with the clock's and raises \<^verbatim>\<open>TypeError\<close>), and only
  when the expiry is earlier than the clock does it exchange the credentials. It returns
  the token read back from the file.
\<close>

definition authenticate :: "env \<Rightarrow> world \<Rightarrow> (error + string) \<times> world" where
  "authenticate env w =
     (case config w of Inl e \<Rightarrow> (Inl e, w) | Inr c \<Rightarrow>
     (case cfg_getitem c ''username'' ''username'' of Inl e \<Rightarrow> (Inl e, w) | Inr username \<Rightarrow>
     (case cfg_getitem c ''password'' ''password'' of Inl e \<Rightarrow> (Inl e, w) | Inr password \<Rightarrow>
     (case get_token_data w of Inl e \<Rightarrow> (Inl e, w) | Inr token_data \<Rightarrow>
     (case cfg_getitem token_data ''expires'' ''expires'' of Inl e \<Rightarrow> (Inl e, w) | Inr expires \<Rightarrow>
     (case parse env expires of Inl e \<Rightarrow> (Inl e, w) | Inr token_expires \<Rightarrow>
     (case token_expires of
        Naive t \<Rightarrow> (Inl (TypeError ''<''), w)
      | Aware t \<Rightarrow>
          (if t < utcnow env
           then (case refresh_token env username password w of
                   (Inl e, w1) \<Rightarrow> (Inl e, w1)
                 | (Inr u, w1) \<Rightarrow>
                     (case token w1 of Inl e \<Rightarrow> (Inl e, w1) | Inr tk \<Rightarrow> (Inr tk, w1)))
           else (case token w of Inl e \<Rightarrow> (Inl e, w) | Inr tk \<Rightarrow> (Inr tk, w))))))))))"

text \<open>Lines 131 to 135, 164 to 168, 210 to 214 and 243 to 247, the same in the four
  transport functions: the headers of the request.\<close>

definition auth_headers :: "env \<Rightarrow> bool \<Rightarrow> world \<Rightarrow> (error + (string \<times> string) list) \<times> world" where
  "auth_headers env auth w =
     (if auth
      then (case authenticate env w of
              (Inl e, w1) \<Rightarrow> (Inl e, w1)
            | (Inr t, w1) \<Rightarrow>
                (case token w1 of
                   Inl e \<Rightarrow> (Inl e, w1)
                 | Inr tk \<Rightarrow> (Inr [(''X-HuutoApiToken'', tk)], w1)))
      else (Inr [], w))"

definition post ::
  "env \<Rightarrow> string \<Rightarrow> pyval \<Rightarrow> bool \<Rightarrow> pyval \<Rightarrow> pyval \<Rightarrow> bool \<Rightarrow> world \<Rightarrow> (error + pyval) \<times> world" where
  "post env path data auth accepted_status_codes fls data_as_json w =
     (case auth_headers env auth w of
        (Inl e, w1) \<Rightarrow> (Inl e, w1)
      | (Inr hdrs, w1) \<Rightarrow> post_send env path data hdrs accepted_status_codes fls data_as_json w1)"

text \<open>\<^verbatim>\<open>get\<close> (lines 111 to 145): the defaults are filled in before the headers are
  chosen.\<close>

definition get ::
  "env \<Rightarrow> string \<Rightarrow> pyval \<Rightarrow> bool \<Rightarrow> pyval \<Rightarrow> world \<Rightarrow> (error + pyval) \<times> world" where
  "get env path parameters auth accepted_status_codes w =
     (let parameters = (if \<not> truthy parameters then PDict [] else parameters);
          accepted_status_codes =
            (if \<not> truthy accepted_status_codes then PList [PInt 200] else accepted_status_codes)
      in case auth_headers env auth w of
           (Inl e, w1) \<Rightarrow> (Inl e, w1)
         | (Inr hdrs, w1) \<Rightarrow>
             (case requests_send env
                     \<lparr>request_method = GET, url = url_of path, params = parameters, headers = hdrs,
                      payload = No_payload, files = PNone\<rparr> w1
              of
                (Inl e, w2) \<Rightarrow> (Inl e, w2)
              | (Inr resp, w2) \<Rightarrow>
                  (case validate_response resp accepted_status_codes of
                     Inl e \<Rightarrow> (Inl e, w2)
                   | Inr u \<Rightarrow>
                       (case json_loads env (content resp) of
                          Inl e \<Rightarrow> (Inl e, w2)
                        | Inr contents \<Rightarrow> (Inr contents, w2)))))"

text \<open>\<^verbatim>\<open>put\<close> (lines 197 to 228).\<close>

definition put ::
  "env \<Rightarrow> string \<Rightarrow> pyval \<Rightarrow> bool \<Rightarrow> pyval \<Rightarrow> world \<Rightarrow> (error + pyval) \<times> world" where
  "put env path data auth accepted_status_codes w =
     (case auth_headers env auth w of
        (Inl e, w1) \<Rightarrow> (Inl e, w1)
      | (Inr hdrs, w1) \<Rightarrow>
          (let accepted_status_codes =
                 (if \<not> truthy accepted_status_codes then PList [PInt 200] else accepted_status_codes)
           in case requests_send env
                     \<lparr>request_method = PUT, url = url_of path, params = PNone, headers = hdrs,
                      payload = Form_data data, files = PNone\<rparr> w1
              of
                (Inl e, w2) \<Rightarrow> (Inl e, w2)
              | (Inr resp, w2) \<Rightarrow>
                  (case validate_response resp accepted_status_codes of
                     Inl e \<Rightarrow> (Inl e, w2)
                   | Inr u \<Rightarrow>
                       (case json_loads env (content resp) of
                          Inl e \<Rightarrow> (Inl e, w2)
                        | Inr contents \<Rightarrow> (Inr contents, w2)))))"

text \<open>\<^verbatim>\<open>delete\<close> (lines 231 to 260) returns the response itself.\<close>

definition delete ::
  "env \<Rightarrow> string \<Rightarrow> bool \<Rightarrow> pyval \<Rightarrow> world \<Rightarrow> (error + response) \<times> world" where
  "delete env path auth accepted_status_codes w =
     (case auth_headers env auth w of
        (Inl e, w1) \<Rightarrow> (Inl e, w1)
      | (Inr hdrs, w1) \<Rightarrow>
          (let accepted_status_codes =
                 (if \<not> truthy accepted_status_codes then PList [PInt 200] else accepted_status_codes)
           in case requests_send env
                     \<lparr>request_method = DELETE, url = url_of path, params = PNone, headers = hdrs,
                      payload = No_payload, files = PNone\<rparr> w1
              of
                (Inl e, w2) \<Rightarrow> (Inl e, w2)
              | (Inr resp, w2) \<Rightarrow>
                  (case validate_response resp accepted_status_codes of
                     Inl e \<Rightarrow> (Inl e, w2)
                   | Inr u \<Rightarrow> (Inr resp, w2))))"


section \<open>Parameter validation\<close>

text \<open>
  A function body that validates is a sequence of statements, each of which raises,
  returns, or falls through to the next one. \<open>run_checks\<close> runs such a sequence: the
  first statement that does not fall through decides.
\<close>

datatype 'a step = Raised error | Returned pyval | Passed 'a

fun run_checks :: "unit step list \<Rightarrow> unit step" where
  "run_checks [] = Passed ()"
| "run_checks (s # ss) =
     (case s of
        Raised e \<Rightarrow> Raised e
      | Returned v \<Rightarrow> Returned v
      | Passed u \<Rightarrow> run_checks ss)"

text \<open>\<^verbatim>\<open>if c: raise e\<close>.\<close>

definition raise_if :: "bool \<Rightarrow> error \<Rightarrow> unit step" where
  "raise_if c e = (if c then Raised e else Passed ())"

text \<open>\<^verbatim>\<open>is_type\<close> (lines 300 to 320). The message of the \<^verbatim>\<open>TypeError\<close> is formatted from
  the expected type, the name and the value; the model keeps the name.\<close>

definition is_type :: "string \<Rightarrow> pyval \<Rightarrow> pytype \<Rightarrow> bool step" where
  "is_type var_name variable object_type =
     (if variable = PNone then Passed True
      else if \<not> isinstance variable object_type then Raised (TypeError var_name)
      else Passed True)"

text \<open>A call of \<^verbatim>\<open>is_type\<close> as a statement: the value returned is dropped.\<close>

definition call_is_type :: "string \<Rightarrow> pyval \<Rightarrow> pytype \<Rightarrow> unit step" where
  "call_is_type var_name variable object_type =
     (case is_type var_name variable object_type of
        Raised e \<Rightarrow> Raised e
      | Returned v \<Rightarrow> Returned v
      | Passed b \<Rightarrow> Passed ())"

text \<open>\<^verbatim>\<open>float(x) if x else None\<close>.\<close>

definition float_or_none :: "env \<Rightarrow> pyval \<Rightarrow> error + pyval" where
  "float_or_none env x =
     (if truthy x
      then (case py_float env x of Inl e \<Rightarrow> Inl e | Inr r \<Rightarrow> Inr (PFloat r))
      else Inr PNone)"

text \<open>
  Lines 572 to 576 and 595 to 599: a truthy value is given to \<^verbatim>\<open>time.strptime\<close>, whose
  \<^verbatim>\<open>ValueError\<close> is caught and turned into \<^verbatim>\<open>return False\<close>. A value that is not a
  string makes \<^verbatim>\<open>strptime\<close> raise \<^verbatim>\<open>TypeError\<close>, which is not caught.
\<close>

definition date_format :: string where
  "date_format = ''%Y-%m-%d %H:%M:%S''"

definition check_time :: "env \<Rightarrow> pyval \<Rightarrow> unit step" where
  "check_time env t =
     (if truthy t
      then (case t of
              PStr s \<Rightarrow> (if strptime_ok env s date_format then Passed () else Returned (PBool False))
            | _ \<Rightarrow> Raised (TypeError ''strptime() argument 0 must be str''))
      else Passed ())"

text \<open>
  Lines 578 to 581 and 622 to 625: the loop over a truthy list raises at the first
  element that is not one of the allowed strings. \<^verbatim>\<open>is_type\<close> has let only a list or
  \<^verbatim>\<open>None\<close> come this far.
\<close>

definition check_members :: "pyval \<Rightarrow> string list \<Rightarrow> error \<Rightarrow> unit step" where
  "check_members v allowed e =
     (if truthy v
      then (case v of
              PList xs \<Rightarrow> raise_if (list_ex (\<lambda>x. \<not> in_strs x allowed) xs) e
            | _ \<Rightarrow> Passed ())
      else Passed ())"

record item =
  buy_now_price :: pyval
  category_id :: pyval
  closing_time :: pyval
  condition :: pyval
  delivery_methods :: pyval
  delivery_terms :: pyval
  description :: pyval
  identification_required :: pyval
  is_location_abroad :: pyval
  list_time :: pyval
  marginal_tax :: pyval
  minimum_feedback :: pyval
  minimum_increase :: pyval
  open_days :: pyval
  original_id :: pyval
  payment_methods :: pyval
  payment_terms :: pyval
  postal_code :: pyval
  quantity :: pyval
  republish :: pyval
  sale_method :: pyval
  starting_price :: pyval
  status :: pyval
  title :: pyval
  vat :: pyval
  offers_allowed :: pyval

text \<open>Lines 551 to 553 of \<^verbatim>\<open>create_item\<close>: the three prices are rebound.\<close>

definition coerce_prices :: "env \<Rightarrow> item \<Rightarrow> error + item" where
  "coerce_prices env a =
     (case float_or_none env (buy_now_price a) of Inl e \<Rightarrow> Inl e | Inr bnp \<Rightarrow>
     (case float_or_none env (minimum_increase a) of Inl e \<Rightarrow> Inl e | Inr mi \<Rightarrow>
     (case float_or_none env (starting_price a) of Inl e \<Rightarrow> Inl e | Inr sp \<Rightarrow>
        Inr (a\<lparr>buy_now_price := bnp, minimum_increase := mi, starting_price := sp\<rparr>))))"

text \<open>Lines 556 to 654 of \<^verbatim>\<open>create_item\<close>, statement by statement, on the variables as
  they are after line 553.\<close>

definition item_checks :: "env \<Rightarrow> item \<Rightarrow> unit step list" where
  \<open>item_checks env a =
     [call_is_type ''category_id'' (category_id a) Int_type,
      call_is_type ''delivery_methods'' (delivery_methods a) List_type,
      call_is_type ''minimum_feedback'' (minimum_feedback a) Int_type,
      call_is_type ''open_days'' (open_days a) Int_type,
      call_is_type ''original_id'' (original_id a) Int_type,
      call_is_type ''payment_methods'' (payment_methods a) List_type,
      call_is_type ''quantity'' (quantity a) Int_type,
      raise_if (truthy (condition a)
                \<and> \<not> in_strs (condition a) [''new'', ''like-new'', ''good'', ''acceptable'', ''weak''])
        (ValueError ''"condition" must be one of these values: ['new', 'like-new', 'good', 'acceptable', 'weak']''),
      check_time env (closing_time a),
      check_members (delivery_methods a) [''pickup'', ''shipment'']
        (ValueError ''delivery_methods must be "pickup" or "shipment".''),
      raise_if (truthy (identification_required a) \<and> \<not> in_ints (identification_required a) [0, 1])
        (ValueError ''"identification_required" must be "0" or "1"''),
      raise_if (is_location_abroad a \<noteq> PNone \<and> \<not> in_ints (is_location_abroad a) [0, 1])
        (ValueError ''"is_location_abroad" must be "0" or "1"''),
      raise_if (is_location_abroad a \<noteq> PNone \<and> py_eq_int (is_location_abroad a) 0
                \<and> postal_code a = PNone)
        (ValueError ''"postal_code" can not be empty if "is_location_abroad=0"''),
      check_time env (list_time a),
      raise_if (truthy (list_time a) \<noteq> truthy (closing_time a))
        (ValueError ''Must set both "list_time" and "closing_time".''),
      raise_if (\<not> (truthy (list_time a) \<noteq> truthy (open_days a)))
        (ValueError ''Must set either "list_time/closing_time" or "open_days".''),
      raise_if (truthy (marginal_tax a) \<and> \<not> in_ints (marginal_tax a) [0, 1])
        (ValueError ''"marginal_tax" must be "0" or "1"''),
      raise_if (truthy (minimum_increase a) \<and> \<not> in_ints (minimum_increase a) [0, 1])
        (ValueError ''"minimum_increase" must be "0" or "1"''),
      raise_if (truthy (offers_allowed a) \<and> \<not> in_ints (offers_allowed a) [0, 1])
        (ValueError ''"offers_allowed" must be "0" or "1"''),
      check_members (payment_methods a) [''wire-transfer'', ''cash'', ''mobile-pay'']
        (ValueError ''payment_methods must contain "wire-transfer", "cash" and/or "mobile-pay".''),
      raise_if (\<not> isinstance (quantity a) Int_type) (TypeError ''quantity''),
      raise_if (truthy (republish a) \<and> \<not> in_ints (republish a) [0, 1])
        (ValueError ''"republish" must be "0" or "1"''),
      raise_if (\<not> in_strs (sale_method a) [''auction'', ''buy-now''])
        (ValueError ''sale_method must be "auction" or "buy-now".''),
      raise_if (py_eq_str (sale_method a) ''buy-now'' \<and> buy_now_price a = PNone)
        (ValueError ''Must set "buy_now_price" when using "sale_method=buy-now".''),
      raise_if (py_eq_str (sale_method a) ''buy-now'' \<and> minimum_increase a \<noteq> PNone)
        (ValueError ''Must set "minimum_increase" only available for "sale_method=auction".''),
      raise_if (py_eq_str (sale_method a) ''auction'' \<and> starting_price a = PNone)
        (ValueError ''Must set "starting_price" when using "sale_method=auction".''),
      raise_if (\<not> in_strs (status a) [''draft'', ''preview''])
        (ValueError ''status must be "draft" or "preview".''),
      raise_if (truthy (vat a) \<and> \<not> in_range (vat a) 0 100)
        (ValueError ''"vat" must be between 0 - 100'')]\<close>

text \<open>Lines 551 to 654 together: the outcome of the local validation, and the
  variables it leaves for the request.\<close>

definition create_item_checks :: "env \<Rightarrow> item \<Rightarrow> item step" where
  "create_item_checks env a =
     (case coerce_prices env a of
        Inl e \<Rightarrow> Raised e
      | Inr a' \<Rightarrow>
          (case run_checks (item_checks env a') of
             Raised e \<Rightarrow> Raised e
           | Returned v \<Rightarrow> Returned v
           | Passed u \<Rightarrow> Passed a'))"

text \<open>\<^verbatim>\<open>{k: v for k, v in data.items() if v is not None}\<close>.\<close>

definition drop_none :: "(string \<times> pyval) list \<Rightarrow> (string \<times> pyval) list" where
  "drop_none kvs = filter (\<lambda>kv. snd kv \<noteq> PNone) kvs"

text \<open>The dictionary of lines 657 to 684 of \<^verbatim>\<open>create_item\<close>. The key of the delivery
  methods ends in a blank in the source.\<close>

definition create_item_data :: "item \<Rightarrow> (string \<times> pyval) list" where
  "create_item_data a =
     [(''buyNowPrice'', buy_now_price a),
      (''categoryId'', category_id a),
      (''closingTime'', closing_time a),
      (''condition'', condition a),
      (''deliveryMethods '', delivery_methods a),
      (''deliveryTerms'', delivery_terms a),
      (''description'', description a),
      (''identificationRequired'', identification_required a),
      (''isLocationAbroad'', is_location_abroad a),
      (''listTime'', list_time a),
      (''marginalTax'', marginal_tax a),
      (''minimumFeedback'', minimum_feedback a),
      (''minimumIncrease'', minimum_increase a),
      (''offersAllowed'', offers_allowed a),
      (''openDays'', open_days a),
      (''originalId'', original_id a),
      (''paymentMethods'', payment_methods a),
      (''paymentTerms'', payment_terms a),
      (''postalCode'', postal_code a),
      (''quantity'', quantity a),
      (''republish'', republish a),
      (''saleMethod'', sale_method a),
      (''startingPrice'', starting_price a),
      (''status'', status a),
      (''title'', title a),
      (''vat'', vat a)]"

text \<open>\<^verbatim>\<open>create_item\<close> (lines 483 to 689).\<close>

definition create_item :: "env \<Rightarrow> item \<Rightarrow> world \<Rightarrow> (error + pyval) \<times> world" where
  "create_item env a w =
     (case create_item_checks env a of
        Raised e \<Rightarrow> (Inl e, w)
      | Returned v \<Rightarrow> (Inr v, w)
      | Passed a' \<Rightarrow>
          post env ''/items'' (PDict (drop_none (create_item_data a'))) True
            (PList [PInt 200, PInt 201]) PNone True w)"

text \<open>The dictionary of lines 716 to 743 of \<^verbatim>\<open>edit_item\<close>, which takes the same
  parameters as \<^verbatim>\<open>create_item\<close> after the item's id.\<close>

definition edit_item_data :: "item \<Rightarrow> (string \<times> pyval) list" where
  "edit_item_data a =
     [(''buyNowPrice'', buy_now_price a),
      (''categoryId'', category_id a),
      (''closingTime'', closing_time a),
      (''condition'', condition a),
      (''deliveryMethods '', delivery_methods a),
      (''deliveryTerms'', delivery_terms a),
      (''description'', description a),
      (''identificationRequired'', identification_required a),
      (''isLocationAbroad'', is_location_abroad a),
      (''listTime'', list_time a),
      (''marginalTax'', marginal_tax a),
      (''minimum_feedback'', minimum_feedback a),
      (''minimum_increase'', minimum_increase a),
      (''offersAllowed'', offers_allowed a),
      (''openDays'', open_days a),
      (''originalId'', original_id a),
      (''paymentMethods'', payment_methods a),
      (''paymentTerms'', payment_terms a),
      (''postalCode'', postal_code a),
      (''quantity'', quantity a),
      (''republish'', republish a),
      (''saleMethod'', sale_method a),
      (''starting_price'', starting_price a),
      (''status'', status a),
      (''title'', title a),
      (''vat'', vat a)]"

text \<open>\<^verbatim>\<open>edit_item\<close> (lines 692 to 748): no validation and no coercion; the path is
  formatted from the item's id.\<close>

definition edit_item :: "env \<Rightarrow> pyval \<Rightarrow> item \<Rightarrow> world \<Rightarrow> (error + pyval) \<times> world" where
  "edit_item env item_id a w =
     put env (''/items/'' @ py_str env item_id @ ''/'') (PDict (drop_none (edit_item_data a))) True
       (PList [PInt 200, PInt 201]) w"


text \<open>Lines 867 to 886 of \<^verbatim>\<open>list_items\<close>: the checks on the search parameters that
  have a fixed set of values, and the type checks.\<close>

definition search_checks ::
  "pyval \<Rightarrow> pyval \<Rightarrow> pyval \<Rightarrow> pyval \<Rightarrow> pyval \<Rightarrow> pyval \<Rightarrow> pyval \<Rightarrow> pyval \<Rightarrow> pyval
     \<Rightarrow> unit step list" where
  \<open>search_checks addtime classification limit sellstyle sort_by biddernro feedback_limit page
     sellernro =
     [raise_if (truthy addtime
                \<and> \<not> in_strs addtime [''past-day'', ''past-2days'', ''past-5days'', ''past-week''])
        (ValueError ''addtime must be one of these values: "past-day", "past-2days", "past-5days", "past-week"''),
      raise_if (truthy classification
                \<and> \<not> in_strs classification
                      [''none'', ''new'', ''like-new'', ''good'', ''acceptable'', ''weak''])
        (ValueError ''classification must be one of these values: "none", "new", "like-new", "good", "acceptable", "weak"''),
      raise_if (truthy limit \<and> \<not> in_ints limit [50, 500])
        (ValueError ''"limit" must be either 50 or 500''),
      raise_if (truthy sellstyle \<and> \<not> in_strs sellstyle [''all'', ''auction'', ''buy-now''])
        (ValueError ''sellstyle must be one of these values: "all", "auction", "buy-now"''),
      raise_if (truthy sort_by
                \<and> \<not> in_strs sort_by
                      [''hits'', ''newest'', ''closing'', ''lowprice'', ''highprice'', ''bidders'', ''title''])
        (ValueError ''sort must be one of these values: hits, newest, closing, lowprice, highprice, bidders, title''),
      call_is_type ''biddernro'' biddernro Int_type,
      call_is_type ''feedback_limit'' feedback_limit Int_type,
      call_is_type ''page'' page Int_type,
      call_is_type ''sellernro'' sellernro Int_type]\<close>

text \<open>The dictionary of lines 893 to 910 of \<^verbatim>\<open>list_items\<close>, from the variables as
  they are after line 890. Nothing is dropped from it: a parameter that is \<^verbatim>\<open>None\<close>
  is handed to \<^verbatim>\<open>requests.get\<close> as \<^verbatim>\<open>None\<close>.\<close>

definition search_params ::
  "pyval \<Rightarrow> pyval \<Rightarrow> pyval \<Rightarrow> pyval \<Rightarrow> pyval \<Rightarrow> pyval \<Rightarrow> pyval \<Rightarrow> pyval \<Rightarrow> pyval \<Rightarrow> pyval
     \<Rightarrow> pyval \<Rightarrow> pyval \<Rightarrow> pyval \<Rightarrow> pyval \<Rightarrow> pyval \<Rightarrow> pyval \<Rightarrow> pyval \<Rightarrow> (string \<times> pyval) list" where
  "search_params addtime area biddernro category classification closingtime feedback_limit limit
     page price_max price_min seller_type sellernro sellstyle sort_by search_status search_words =
     [(''addtime'', addtime),
      (''area'', area),
      (''biddernro'', biddernro),
      (''category'', category),
      (''classification'', classification),
      (''closingtime'', closingtime),
      (''feedback_limit'', feedback_limit),
      (''limit'', limit),
      (''page'', page),
      (''price_min'', price_min),
      (''price_max'', price_max),
      (''seller_type'', seller_type),
      (''sellernro'', sellernro),
      (''sellstyle'', sellstyle),
      (''sort'', sort_by),
      (''status'', search_status),
      (''words'', search_words)]"

text \<open>
  \<^verbatim>\<open>list_items\<close> (lines 831 to 912), with its parameters in the order of the source
  (\<open>sort\<close>, \<open>status\<close> and \<open>words\<close> are written \<open>sort_by\<close>, \<open>search_status\<close> and
  \<open>search_words\<close>). The request is made without authentication and with the default
  accepted codes.
\<close>

definition list_items ::
  "env \<Rightarrow> pyval \<Rightarrow> pyval \<Rightarrow> pyval \<Rightarrow> pyval \<Rightarrow> pyval \<Rightarrow> pyval \<Rightarrow> pyval \<Rightarrow> pyval \<Rightarrow> pyval \<Rightarrow> pyval
     \<Rightarrow> pyval \<Rightarrow> pyval \<Rightarrow> pyval \<Rightarrow> pyval \<Rightarrow> pyval \<Rightarrow> pyval \<Rightarrow> pyval \<Rightarrow> world
     \<Rightarrow> (error + pyval) \<times> world" where
  "list_items env addtime area biddernro category classification closingtime feedback_limit limit
     page price_max price_min seller_type sellernro sellstyle sort_by search_status search_words w =
     (case run_checks (search_checks addtime classification limit sellstyle sort_by biddernro
                         feedback_limit page sellernro) of
        Raised e \<Rightarrow> (Inl e, w)
      | Returned v \<Rightarrow> (Inr v, w)
      | Passed u \<Rightarrow>
     (case float_or_none env price_min of Inl e \<Rightarrow> (Inl e, w) | Inr price_min' \<Rightarrow>
     (case float_or_none env price_max of Inl e \<Rightarrow> (Inl e, w) | Inr price_max' \<Rightarrow>
        get env ''/items''
          (PDict (search_params addtime area biddernro category classification closingtime
                    feedback_limit limit page price_max' price_min' seller_type sellernro sellstyle
                    sort_by search_status search_words))
          False (PBool False) w)))"


section \<open>Concrete inputs\<close>

text \<open>
  A configuration file with credentials and a token record, an outside world whose
  service answers every request with the same status code and an empty JSON object, and
  the calls of the repository's tests. The clock and the two expiry dates are in seconds
  since 1970; \<open>float\<close> and \<open>str\<close> are given on the values the examples use.
\<close>

definition example_cfg :: "string \<Rightarrow> config_file" where
  "example_cfg expires =
     [(''Huuto.net'', [(''username'', ''seller''), (''password'', ''secret'')]),
      (''token'', [(''userid'', ''12345''),
                   (''token'', ''0123456789abcdef0123456789abcdef''),
                   (''start_time'', ''2019-12-31T00:00:00+0200''),
                   (''expires'', expires)])]"

definition fresh_world :: world where
  "fresh_world = \<lparr>cfg = example_cfg ''2030-01-01T00:00:00+0200'', trace = []\<rparr>"

definition stale_world :: world where
  "stale_world = \<lparr>cfg = example_cfg ''2020-01-01T00:00:00+0200'', trace = []\<rparr>"

definition example_env :: "int \<Rightarrow> env" where
  "example_env st =
     \<lparr>http = (\<lambda>tr rq. Inr (st, ''{}'')),
      json_loads = (\<lambda>s. if s = ''{}'' then Inr (PDict []) else Inl (LibraryError ''json'')),
      parse = (\<lambda>s. if s = ''2030-01-01T00:00:00+0200'' then Inr (Aware 1893448800)
                   else if s = ''2020-01-01T00:00:00+0200'' then Inr (Aware 1577829600)
                   else Inl (LibraryError ''parse'')),
      utcnow = 1800000000,
      strptime_ok = (\<lambda>s f. s = ''2016-11-20 19:26:00'' \<and> f = ''%Y-%m-%d %H:%M:%S''),
      py_float = (\<lambda>v. case v of
                         PBool b \<Rightarrow> Inr (if b then 1 else 0)
                       | PInt i \<Rightarrow> Inr (of_int i)
                       | PFloat r \<Rightarrow> Inr r
                       | _ \<Rightarrow> Inl (TypeError ''float'')),
      py_str = (\<lambda>v. case v of PStr s \<Rightarrow> s | _ \<Rightarrow> ''?'')\<rparr>"

definition example_request :: request where
  "example_request =
     \<lparr>request_method = GET, url = url_of ''/items/999999/'', params = PDict [], headers = [],
      payload = No_payload, files = PNone\<rparr>"

text \<open>The defaults of \<^verbatim>\<open>create_item\<close> (lines 483 to 489), and the call of
  \<^verbatim>\<open>test_create_item_draft\<close> in \<^verbatim>\<open>huuto_test_auth.py\<close>.\<close>

definition default_item :: item where
  "default_item =
     \<lparr>buy_now_price = PNone, category_id = PNone, closing_time = PNone, condition = PNone,
      delivery_methods = PNone, delivery_terms = PNone, description = PNone,
      identification_required = PNone, is_location_abroad = PNone, list_time = PNone,
      marginal_tax = PNone, minimum_feedback = PNone, minimum_increase = PNone,
      open_days = PNone, original_id = PNone, payment_methods = PNone, payment_terms = PNone,
      postal_code = PNone, quantity = PInt 1, republish = PNone, sale_method = PNone,
      starting_price = PNone, status = PStr ''preview'', title = PNone, vat = PNone,
      offers_allowed = PNone\<rparr>"

definition draft_item :: item where
  "draft_item =
     default_item\<lparr>status := PStr ''draft'', open_days := PInt 3,
                  sale_method := PStr ''auction'', starting_price := PInt 1\<rparr>"

text \<open>The request that \<^verbatim>\<open>authenticate\<close> makes for the credential exchange.\<close>

definition auth_request :: "string \<Rightarrow> string \<Rightarrow> request" where
  "auth_request username password =
     \<lparr>request_method = POST, url = url_of ''/authentication'', params = PNone, headers = [],
      payload = Form_data (PDict [(''username'', PStr username), (''password'', PStr password)]),
      files = PNone\<rparr>"

text \<open>
  The renaming of body keys that the comparison of \<^verbatim>\<open>edit_item\<close> with
  \<^verbatim>\<open>create_item\<close> is stated with: three camel-case keys of \<^verbatim>\<open>create_item\<close> become
  snake-case keys, every other key stays.
\<close>

definition edit_key :: "string \<Rightarrow> string" where
  "edit_key k =
     (if k = ''minimumFeedback'' then ''minimum_feedback''
      else if k = ''minimumIncrease'' then ''minimum_increase''
      else if k = ''startingPrice'' then ''starting_price''
      else k)"


section \<open>Properties of the response validator and of the transport layer\<close>

lemma list_ex_ints: "list_ex (\<lambda>x. py_eq_int x st) (map PInt codes) = (st \<in> set codes)"
  by (induction codes) auto

lemma validate_accepted:
  assumes "st \<in> set codes" and "st \<notin> {400, 401, 403, 404, 501}"
  shows "validate_response \<lparr>status_code = st, content = body, request = rq\<rparr>
           (PList (map PInt codes)) = Inr ()"
  using assms by (simp add: validate_response_def list_ex_ints)

lemma sum_case_id: "(case r of Inl e \<Rightarrow> (Inl e, w) | Inr v \<Rightarrow> (Inr v, w)) = (r, w)"
  by (cases r) simp_all

lemma get_validated:
  assumes "auth_headers env auth w = (Inr hdrs, w1)"
    and "rq = \<lparr>request_method = GET, url = url_of path,
                params = (if \<not> truthy ps then PDict [] else ps), headers = hdrs,
                payload = No_payload, files = PNone\<rparr>"
    and "http env (trace w1) rq = Inr (st, body)"
    and "truthy acc"
    and "validate_response \<lparr>status_code = st, content = body, request = rq\<rparr> acc = Inr ()"
  shows "get env path ps auth acc w = (json_loads env body, w1\<lparr>trace := trace w1 @ [Sent rq]\<rparr>)"
  using assms(1,3,4,5) unfolding assms(2)
  by (simp add: get_def requests_send_def sum_case_id)

lemma post_validated:
  assumes "auth_headers env auth w = (Inr hdrs, w1)"
    and "rq = \<lparr>request_method = POST, url = url_of path, params = PNone, headers = hdrs,
                payload = (if as_json then Json_data data else Form_data data), files = fls\<rparr>"
    and "http env (trace w1) rq = Inr (st, body)"
    and "truthy acc"
    and "validate_response \<lparr>status_code = st, content = body, request = rq\<rparr> acc = Inr ()"
  shows "post env path data auth acc fls as_json w
           = (json_loads env body, w1\<lparr>trace := trace w1 @ [Sent rq]\<rparr>)"
  using assms(1,3,4,5) unfolding assms(2)
  by (simp add: post_def post_send_def requests_send_def sum_case_id)

lemma put_validated:
  assumes "auth_headers env auth w = (Inr hdrs, w1)"
    and "rq = \<lparr>request_method = PUT, url = url_of path, params = PNone, headers = hdrs,
                payload = Form_data data, files = PNone\<rparr>"
    and "http env (trace w1) rq = Inr (st, body)"
    and "truthy acc"
    and "validate_response \<lparr>status_code = st, content = body, request = rq\<rparr> acc = Inr ()"
  shows "put env path data auth acc w = (json_loads env body, w1\<lparr>trace := trace w1 @ [Sent rq]\<rparr>)"
  using assms(1,3,4,5) unfolding assms(2)
  by (simp add: put_def requests_send_def sum_case_id)

lemma delete_validated:
  assumes "auth_headers env auth w = (Inr hdrs, w1)"
    and "rq = \<lparr>request_method = DELETE, url = url_of path, params = PNone, headers = hdrs,
                payload = No_payload, files = PNone\<rparr>"
    and "http env (trace w1) rq = Inr (st, body)"
    and "truthy acc"
    and "validate_response \<lparr>status_code = st, content = body, request = rq\<rparr> acc = Inr ()"
  shows "delete env path auth acc w
           = (Inr \<lparr>status_code = st, content = body, request = rq\<rparr>,
              w1\<lparr>trace := trace w1 @ [Sent rq]\<rparr>)"
  using assms(1,3,4,5) unfolding assms(2)
  by (simp add: delete_def requests_send_def)

text \<open>
  The call that \<open>authenticate\<close> makes for the credential exchange is \<^verbatim>\<open>post\<close> with
  \<open>auth\<close> unset.
\<close>

lemma post_without_auth:
  "post env path data False acc fls as_json w = post_send env path data [] acc fls as_json w"
  by (simp add: post_def auth_headers_def)

text \<open>
  Claim C1, as the code has it. A status code that is in the accepted list and is none
  of 400, 401, 403, 404 and 501 passes \<^verbatim>\<open>validate_response\<close>, and each of the four
  transport functions then goes on: \<^verbatim>\<open>get\<close>, \<^verbatim>\<open>post\<close> and \<^verbatim>\<open>put\<close> return what
  \<^verbatim>\<open>json.loads\<close> makes of the body, \<^verbatim>\<open>delete\<close> returns the response, and the request
  is the only thing added to the trace after the headers were chosen. The five codes are
  left out because \<^verbatim>\<open>validate_response\<close> raises for them before it looks at the
  accepted list: whatever the accepted codes are, and so whether or not the code is among
  them, 400 raises \<^verbatim>\<open>ApiBadRequestError\<close>, 401 \<^verbatim>\<open>ApiUnauthorizedError\<close>, 403
  \<^verbatim>\<open>ApiForbiddenError\<close>, 404 \<^verbatim>\<open>ApiNotFoundError\<close> and 501 \<^verbatim>\<open>ApiNotImplementedError\<close>.
\<close>

theorem accepted_status_passes:
  fixes codes :: "int list"
  defines "acc \<equiv> PList (map PInt codes)"
  shows "(st \<in> set codes \<and> st \<notin> {400, 401, 403, 404, 501} \<longrightarrow>
    validate_response \<lparr>status_code = st, content = body, request = rq\<rparr> acc = Inr ()
    \<and> (\<forall>hdrs w1.
          auth_headers env auth w = (Inr hdrs, w1) \<longrightarrow>
          (http env (trace w1)
               \<lparr>request_method = GET, url = url_of path, params = (if \<not> truthy ps then PDict [] else ps),
                headers = hdrs, payload = No_payload, files = PNone\<rparr> = Inr (st, body) \<longrightarrow>
             get env path ps auth acc w
               = (json_loads env body,
                  w1\<lparr>trace := trace w1 @
                     [Sent \<lparr>request_method = GET, url = url_of path,
                            params = (if \<not> truthy ps then PDict [] else ps),
                            headers = hdrs, payload = No_payload, files = PNone\<rparr>]\<rparr>))
        \<and> (http env (trace w1)
               \<lparr>request_method = POST, url = url_of path, params = PNone, headers = hdrs,
                payload = (if as_json then Json_data data else Form_data data), files = fls\<rparr>
               = Inr (st, body) \<longrightarrow>
             post env path data auth acc fls as_json w
               = (json_loads env body,
                  w1\<lparr>trace := trace w1 @
                     [Sent \<lparr>request_method = POST, url = url_of path, params = PNone, headers = hdrs,
                            payload = (if as_json then Json_data data else Form_data data),
                            files = fls\<rparr>]\<rparr>))
        \<and> (http env (trace w1)
               \<lparr>request_method = PUT, url = url_of path, params = PNone, headers = hdrs,
                payload = Form_data data, files = PNone\<rparr> = Inr (st, body) \<longrightarrow>
             put env path data auth acc w
               = (json_loads env body,
                  w1\<lparr>trace := trace w1 @
                     [Sent \<lparr>request_method = PUT, url = url_of path, params = PNone, headers = hdrs,
                            payload = Form_data data, files = PNone\<rparr>]\<rparr>))
        \<and> (http env (trace w1)
               \<lparr>request_method = DELETE, url = url_of path, params = PNone, headers = hdrs,
                payload = No_payload, files = PNone\<rparr> = Inr (st, body) \<longrightarrow>
             delete env path auth acc w
               = (Inr \<lparr>status_code = st, content = body,
                       request = \<lparr>request_method = DELETE, url = url_of path, params = PNone,
                                  headers = hdrs, payload = No_payload, files = PNone\<rparr>\<rparr>,
                  w1\<lparr>trace := trace w1 @
                     [Sent \<lparr>request_method = DELETE, url = url_of path, params = PNone, headers = hdrs,
                            payload = No_payload, files = PNone\<rparr>]\<rparr>))))
    \<and> validate_response \<lparr>status_code = 400, content = body, request = rq\<rparr> acc
        = Inl (ApiBadRequestError rq 400)
    \<and> validate_response \<lparr>status_code = 401, content = body, request = rq\<rparr> acc
        = Inl (ApiUnauthorizedError rq 401)
    \<and> validate_response \<lparr>status_code = 403, content = body, request = rq\<rparr> acc
        = Inl (ApiForbiddenError rq 403)
    \<and> validate_response \<lparr>status_code = 404, content = body, request = rq\<rparr> acc
        = Inl (ApiNotFoundError rq 404)
    \<and> validate_response \<lparr>status_code = 501, content = body, request = rq\<rparr> acc
        = Inl (ApiNotImplementedError rq 501)"
    (is "(?in \<longrightarrow> ?passes) \<and> ?r400 \<and> ?r401 \<and> ?r403 \<and> ?r404 \<and> ?r501")
proof -
  have p: ?passes if "st \<in> set codes" and "st \<notin> {400, 401, 403, 404, 501}"
  proof -
    have t: "truthy acc"
      using that(1) by (auto simp: acc_def)
    have v: "validate_response \<lparr>status_code = st, content = b, request = r\<rparr> acc = Inr ()" for b r
      unfolding acc_def using that by (rule validate_accepted)
    show ?thesis
      using v t
      by (auto intro!: get_validated post_validated put_validated delete_validated)
  qed
  have r: ?r400 ?r401 ?r403 ?r404 ?r501
    by (simp_all add: validate_response_def acc_def)
  from p r show ?thesis
    by blast
qed

text \<open>
  Claim C1 at concrete inputs: the service answers 201, the accepted codes are 200 and
  201, and the four calls are made without authentication; and each of the five codes
  raises its error although it is among the accepted codes.
\<close>

theorem accepted_status_passes_witness:
  "(201::int) \<in> set [200, 201] \<and> (201::int) \<notin> {400, 401, 403, 404, 501}
   \<and> validate_response \<lparr>status_code = 201, content = ''{}'', request = example_request\<rparr>
        (PList (map PInt [200, 201])) = Inr ()
   \<and> get (example_env 201) ''/items'' PNone False (PList (map PInt [200, 201])) fresh_world
        = (Inr (PDict []),
           fresh_world\<lparr>trace := trace fresh_world @
              [Sent \<lparr>request_method = GET, url = url_of ''/items'', params = PDict [], headers = [],
                     payload = No_payload, files = PNone\<rparr>]\<rparr>)
   \<and> post (example_env 201) ''/items'' (PDict []) False (PList (map PInt [200, 201])) PNone False
        fresh_world
        = (Inr (PDict []),
           fresh_world\<lparr>trace := trace fresh_world @
              [Sent \<lparr>request_method = POST, url = url_of ''/items'', params = PNone, headers = [],
                     payload = Form_data (PDict []), files = PNone\<rparr>]\<rparr>)
   \<and> put (example_env 201) ''/items'' (PDict []) False (PList (map PInt [200, 201])) fresh_world
        = (Inr (PDict []),
           fresh_world\<lparr>trace := trace fresh_world @
              [Sent \<lparr>request_method = PUT, url = url_of ''/items'', params = PNone, headers = [],
                     payload = Form_data (PDict []), files = PNone\<rparr>]\<rparr>)
   \<and> delete (example_env 201) ''/items'' False (PList (map PInt [200, 201])) fresh_world
        = (Inr \<lparr>status_code = 201, content = ''{}'',
                request = \<lparr>request_method = DELETE, url = url_of ''/items'', params = PNone,
                           headers = [], payload = No_payload, files = PNone\<rparr>\<rparr>,
           fresh_world\<lparr>trace := trace fresh_world @
              [Sent \<lparr>request_method = DELETE, url = url_of ''/items'', params = PNone, headers = [],
                     payload = No_payload, files = PNone\<rparr>]\<rparr>)
   \<and> validate_response \<lparr>status_code = 400, content = ''{}'', request = example_request\<rparr>
        (PList (map PInt [200, 400, 401, 403, 404, 501])) = Inl (ApiBadRequestError example_request 400)
   \<and> validate_response \<lparr>status_code = 401, content = ''{}'', request = example_request\<rparr>
        (PList (map PInt [200, 400, 401, 403, 404, 501])) = Inl (ApiUnauthorizedError example_request 401)
   \<and> validate_response \<lparr>status_code = 403, content = ''{}'', request = example_request\<rparr>
        (PList (map PInt [200, 400, 401, 403, 404, 501])) = Inl (ApiForbiddenError example_request 403)
   \<and> validate_response \<lparr>status_code = 404, content = ''{}'', request = example_request\<rparr>
        (PList (map PInt [200, 400, 401, 403, 404, 501])) = Inl (ApiNotFoundError example_request 404)
   \<and> validate_response \<lparr>status_code = 501, content = ''{}'', request = example_request\<rparr>
        (PList (map PInt [200, 400, 401, 403, 404, 501]))
        = Inl (ApiNotImplementedError example_request 501)"
proof -
  note passes =
    accepted_status_passes
      [where st = 201 and codes = "[200, 201]" and body = "''{}''" and rq = example_request
         and env = "example_env 201" and auth = False and w = fresh_world
         and path = "''/items''" and ps = PNone and data = "PDict []" and fls = PNone
         and as_json = False, THEN conjunct1]
  note raises =
    accepted_status_passes
      [where st = 201 and codes = "[200, 400, 401, 403, 404, 501]" and body = "''{}''"
         and rq = example_request and env = "example_env 201" and auth = False
         and w = fresh_world and path = "''/items''" and ps = PNone and data = "PDict []"
         and fls = PNone and as_json = False, THEN conjunct2]
  from passes raises show ?thesis
    by (simp add: auth_headers_def example_env_def)
qed

text \<open>
  Claim C1 as it is stated fails: with 404 among the accepted codes, a response with
  status 404 still raises \<^verbatim>\<open>ApiNotFoundError\<close>.
\<close>

theorem accepted_404_still_raises:
  "(404::int) \<in> set [200, 404]
   \<and> validate_response \<lparr>status_code = 404, content = ''{}'', request = example_request\<rparr>
        (PList (map PInt [200, 404])) = Inl (ApiNotFoundError example_request 404)"
  by (simp add: validate_response_def)

text \<open>
  Claim C2. A status code that is not in the accepted list makes \<^verbatim>\<open>validate_response\<close>
  raise: \<^verbatim>\<open>ApiBadRequestError\<close> for 400, \<^verbatim>\<open>ApiUnauthorizedError\<close> for 401,
  \<^verbatim>\<open>ApiForbiddenError\<close> for 403, \<^verbatim>\<open>ApiNotFoundError\<close> for 404,
  \<^verbatim>\<open>ApiNotImplementedError\<close> for 501 and the generic \<^verbatim>\<open>ApiError\<close> for any other code.
\<close>

theorem unaccepted_status_raises:
  assumes "status_code resp \<notin> set codes"
  shows "(status_code resp = 400 \<longrightarrow>
            validate_response resp (PList (map PInt codes))
              = Inl (ApiBadRequestError (request resp) 400))
       \<and> (status_code resp = 401 \<longrightarrow>
            validate_response resp (PList (map PInt codes))
              = Inl (ApiUnauthorizedError (request resp) 401))
       \<and> (status_code resp = 403 \<longrightarrow>
            validate_response resp (PList (map PInt codes))
              = Inl (ApiForbiddenError (request resp) 403))
       \<and> (status_code resp = 404 \<longrightarrow>
            validate_response resp (PList (map PInt codes))
              = Inl (ApiNotFoundError (request resp) 404))
       \<and> (status_code resp = 501 \<longrightarrow>
            validate_response resp (PList (map PInt codes))
              = Inl (ApiNotImplementedError (request resp) 501))
       \<and> (status_code resp \<notin> {400, 401, 403, 404, 501} \<longrightarrow>
            validate_response resp (PList (map PInt codes))
              = Inl (ApiError (request resp) (status_code resp)))"
  using assms by (simp add: validate_response_def list_ex_ints)

text \<open>
  Claim C2 at concrete inputs: with only 200 accepted, the six kinds of error are raised
  for the statuses 400, 401, 403, 404, 501 and 500.
\<close>

theorem unaccepted_status_raises_witness:
  "(400::int) \<notin> set [200]
   \<and> validate_response \<lparr>status_code = 400, content = ''{}'', request = example_request\<rparr>
        (PList (map PInt [200])) = Inl (ApiBadRequestError example_request 400)
   \<and> validate_response \<lparr>status_code = 401, content = ''{}'', request = example_request\<rparr>
        (PList (map PInt [200])) = Inl (ApiUnauthorizedError example_request 401)
   \<and> validate_response \<lparr>status_code = 403, content = ''{}'', request = example_request\<rparr>
        (PList (map PInt [200])) = Inl (ApiForbiddenError example_request 403)
   \<and> validate_response \<lparr>status_code = 404, content = ''{}'', request = example_request\<rparr>
        (PList (map PInt [200])) = Inl (ApiNotFoundError example_request 404)
   \<and> validate_response \<lparr>status_code = 501, content = ''{}'', request = example_request\<rparr>
        (PList (map PInt [200])) = Inl (ApiNotImplementedError example_request 501)
   \<and> validate_response \<lparr>status_code = 500, content = ''{}'', request = example_request\<rparr>
        (PList (map PInt [200])) = Inl (ApiError example_request 500)"
  using unaccepted_status_raises
          [of "\<lparr>status_code = 400, content = ''{}'', request = example_request\<rparr>" "[200]"]
        unaccepted_status_raises
          [of "\<lparr>status_code = 401, content = ''{}'', request = example_request\<rparr>" "[200]"]
        unaccepted_status_raises
          [of "\<lparr>status_code = 403, content = ''{}'', request = example_request\<rparr>" "[200]"]
        unaccepted_status_raises
          [of "\<lparr>status_code = 404, content = ''{}'', request = example_request\<rparr>" "[200]"]
        unaccepted_status_raises
          [of "\<lparr>status_code = 501, content = ''{}'', request = example_request\<rparr>" "[200]"]
        unaccepted_status_raises
          [of "\<lparr>status_code = 500, content = ''{}'', request = example_request\<rparr>" "[200]"]
  by simp


section \<open>Properties of the token lifecycle\<close>

lemma validate_exchange_failed:
  "st \<noteq> 200 \<Longrightarrow> st \<noteq> 201 \<Longrightarrow>
   validate_response \<lparr>status_code = st, content = b, request = rq\<rparr> (PList [PInt 200, PInt 201])
     = Inl (error_of_status rq st)"
  by (simp add: validate_response_def error_of_status_def)

lemma refresh_token_failed:
  assumes "http env (trace w) (auth_request u p) = Inr (st, body)" and "st \<noteq> 200" and "st \<noteq> 201"
  shows "refresh_token env u p w
           = (Inl (error_of_status (auth_request u p) st),
              w\<lparr>trace := trace w @ [Sent (auth_request u p)]\<rparr>)"
proof -
  have "post_send env ''/authentication''
          (PDict [(''username'', PStr u), (''password'', PStr p)]) []
          (PList [PInt 200, PInt 201]) PNone False w
        = (Inl (error_of_status (auth_request u p) st),
           w\<lparr>trace := trace w @ [Sent (auth_request u p)]\<rparr>)"
    using assms
    by (simp add: post_send_def requests_send_def auth_request_def validate_exchange_failed)
  then show ?thesis
    by (simp add: refresh_token_def)
qed

lemma is_ApiError_of_status: "is_ApiError (error_of_status rq st)"
  by (simp add: error_of_status_def)

text \<open>
  Claim C3. When the expiry of the persisted token record parses to a timestamp (with a
  time zone, as the comparison with the clock needs) that is
  not earlier than the clock, \<^verbatim>\<open>authenticate\<close> leaves the world as it found it: no
  request is sent, so no credential exchange takes place, and the configuration file is
  not written. With the user name and the password in the file (they are read first), it
  returns the token of the record.
\<close>

theorem unexpired_token_reused:
  assumes "get_token_data w = Inr td"
    and "cfg_getitem td ''expires'' ''expires'' = Inr e"
    and "cfg_getitem td ''token'' ''token'' = Inr tok"
    and "parse env e = Inr (Aware t)"
    and "\<not> t < utcnow env"
  shows "snd (authenticate env w) = w
       \<and> (\<forall>c u p. config w = Inr c \<and> cfg_getitem c ''username'' ''username'' = Inr u
                   \<and> cfg_getitem c ''password'' ''password'' = Inr p
            \<longrightarrow> authenticate env w = (Inr tok, w))"
proof -
  have tk: "token w = Inr tok"
    using assms(1,3) by (simp add: token_def get_token_data_def)
  have "snd (authenticate env w) = w"
    using assms tk by (simp add: authenticate_def split: sum.splits)
  moreover have "authenticate env w = (Inr tok, w)"
    if "config w = Inr c" "cfg_getitem c ''username'' ''username'' = Inr u"
       "cfg_getitem c ''password'' ''password'' = Inr p" for c u p
    using that assms tk by (simp add: authenticate_def)
  ultimately show ?thesis by blast
qed

text \<open>
  Claim C3 at a concrete input: a token record that expires in 2030, read when the clock
  stands at 1800000000.
\<close>

theorem unexpired_token_reused_witness:
  "get_token_data fresh_world
     = Inr [(''userid'', ''12345''), (''token'', ''0123456789abcdef0123456789abcdef''),
            (''start_time'', ''2019-12-31T00:00:00+0200''),
            (''expires'', ''2030-01-01T00:00:00+0200'')]
   \<and> parse (example_env 200) ''2030-01-01T00:00:00+0200'' = Inr (Aware 1893448800)
   \<and> \<not> 1893448800 < utcnow (example_env 200)
   \<and> config fresh_world = Inr [(''username'', ''seller''), (''password'', ''secret'')]
   \<and> authenticate (example_env 200) fresh_world
       = (Inr ''0123456789abcdef0123456789abcdef'', fresh_world)"
proof -
  have g: "get_token_data fresh_world
     = Inr [(''userid'', ''12345''), (''token'', ''0123456789abcdef0123456789abcdef''),
            (''start_time'', ''2019-12-31T00:00:00+0200''),
            (''expires'', ''2030-01-01T00:00:00+0200'')]"
    by (simp add: get_token_data_def cfg_getitem_def fresh_world_def example_cfg_def)
  have p: "parse (example_env 200) ''2030-01-01T00:00:00+0200'' = Inr (Aware 1893448800)"
    by (simp add: example_env_def)
  have n: "\<not> 1893448800 < utcnow (example_env 200)"
    by (simp add: example_env_def)
  have c: "config fresh_world = Inr [(''username'', ''seller''), (''password'', ''secret'')]"
    by (simp add: config_def cfg_getitem_def fresh_world_def example_cfg_def)
  from unexpired_token_reused [OF g _ _ p n, of "''0123456789abcdef0123456789abcdef''"]
  have "authenticate (example_env 200) fresh_world
       = (Inr ''0123456789abcdef0123456789abcdef'', fresh_world)"
    using c by (simp add: cfg_getitem_def)
  with g p n c show ?thesis by simp
qed

text \<open>
  Claim C4, as the code has it. When the token has expired and the service answers the
  credential exchange with a status other than 200 and 201, \<^verbatim>\<open>authenticate\<close> fails
  with the exception that \<^verbatim>\<open>validate_response\<close> raises for that status, which is one
  of the Api errors; the exchange is the only request sent, and the configuration file is
  not written. The source has no exception class for a failed authentication.
\<close>

theorem failed_exchange_raises_status_error:
  assumes "config w = Inr c"
    and "cfg_getitem c ''username'' ''username'' = Inr u"
    and "cfg_getitem c ''password'' ''password'' = Inr p"
    and "get_token_data w = Inr td"
    and "cfg_getitem td ''expires'' ''expires'' = Inr e"
    and "parse env e = Inr (Aware t)"
    and "t < utcnow env"
    and "http env (trace w) (auth_request u p) = Inr (st, body)"
    and "st \<noteq> 200" and "st \<noteq> 201"
  shows "authenticate env w
           = (Inl (error_of_status (auth_request u p) st),
              w\<lparr>trace := trace w @ [Sent (auth_request u p)]\<rparr>)
       \<and> is_ApiError (error_of_status (auth_request u p) st)"
  using assms(1-7) refresh_token_failed [OF assms(8-10)]
  by (simp add: authenticate_def is_ApiError_of_status)

text \<open>
  Claim C4 at a concrete input: the token expired in 2020 and the service answers 500.
\<close>

theorem failed_exchange_raises_status_error_witness:
  "config stale_world = Inr [(''username'', ''seller''), (''password'', ''secret'')]
   \<and> parse (example_env 500) ''2020-01-01T00:00:00+0200'' = Inr (Aware 1577829600)
   \<and> 1577829600 < utcnow (example_env 500)
   \<and> http (example_env 500) (trace stale_world) (auth_request ''seller'' ''secret'') = Inr (500, ''{}'')
   \<and> authenticate (example_env 500) stale_world
       = (Inl (ApiError (auth_request ''seller'' ''secret'') 500),
          stale_world\<lparr>trace := trace stale_world @ [Sent (auth_request ''seller'' ''secret'')]\<rparr>)"
proof -
  have c: "config stale_world = Inr [(''username'', ''seller''), (''password'', ''secret'')]"
    by (simp add: config_def cfg_getitem_def stale_world_def example_cfg_def)
  have g: "get_token_data stale_world
     = Inr [(''userid'', ''12345''), (''token'', ''0123456789abcdef0123456789abcdef''),
            (''start_time'', ''2019-12-31T00:00:00+0200''),
            (''expires'', ''2020-01-01T00:00:00+0200'')]"
    by (simp add: get_token_data_def cfg_getitem_def stale_world_def example_cfg_def)
  have p: "parse (example_env 500) ''2020-01-01T00:00:00+0200'' = Inr (Aware 1577829600)"
    by (simp add: example_env_def)
  have n: "1577829600 < utcnow (example_env 500)"
    by (simp add: example_env_def)
  have h: "http (example_env 500) (trace stale_world) (auth_request ''seller'' ''secret'')
             = Inr (500, ''{}'')"
    by (simp add: example_env_def)
  from failed_exchange_raises_status_error [OF c _ _ g _ p n h]
  have "authenticate (example_env 500) stale_world
       = (Inl (error_of_status (auth_request ''seller'' ''secret'') 500),
          stale_world\<lparr>trace := trace stale_world @ [Sent (auth_request ''seller'' ''secret'')]\<rparr>)"
    by (simp add: cfg_getitem_def)
  with c p n h show ?thesis by (simp add: error_of_status_def)
qed

text \<open>
  Claim C4 as it is stated fails: when the service answers the exchange with 400, the
  call fails with \<^verbatim>\<open>ApiBadRequestError\<close>, the transport layer's error for that status,
  and not with an error of a kind of its own.
\<close>

theorem failed_exchange_is_bad_request:
  "authenticate (example_env 400) stale_world
     = (Inl (ApiBadRequestError (auth_request ''seller'' ''secret'') 400),
        stale_world\<lparr>trace := [Sent (auth_request ''seller'' ''secret'')]\<rparr>)"
  by (simp add: authenticate_def config_def get_token_data_def cfg_getitem_def
        stale_world_def example_cfg_def example_env_def refresh_token_def post_send_def
        requests_send_def validate_response_def auth_request_def)

section \<open>Defaults of the accepted codes\<close>

lemma post_send_falsy:
  assumes "\<not> truthy v"
  shows "post_send env path data hdrs v fls as_json w
           = post_send env path data hdrs (PList [PInt 200]) fls as_json w"
  using assms by (simp add: post_send_def)

lemma post_falsy:
  assumes "\<not> truthy v"
  shows "post env path data auth v fls as_json w
           = post env path data auth (PList [PInt 200]) fls as_json w"
  by (simp add: post_def post_send_falsy [OF assms] split: prod.splits sum.splits)

text \<open>
  Claim C9. A falsy value given as the accepted codes to \<^verbatim>\<open>get\<close>, \<^verbatim>\<open>post\<close>,
  \<^verbatim>\<open>put\<close> or \<^verbatim>\<open>delete\<close> is replaced by the list with 200 alone: the call is the one
  made with the argument left out (the default \<^verbatim>\<open>False\<close>) and the one made with
  \<^verbatim>\<open>[200]\<close>.
\<close>

theorem falsy_accepted_codes_default:
  assumes "\<not> truthy v"
  shows "get env path ps auth v w = get env path ps auth (PBool False) w
       \<and> get env path ps auth v w = get env path ps auth (PList [PInt 200]) w
       \<and> post env path data auth v fls as_json w = post env path data auth (PBool False) fls as_json w
       \<and> post env path data auth v fls as_json w = post env path data auth (PList [PInt 200]) fls as_json w
       \<and> put env path data auth v w = put env path data auth (PBool False) w
       \<and> put env path data auth v w = put env path data auth (PList [PInt 200]) w
       \<and> delete env path auth v w = delete env path auth (PBool False) w
       \<and> delete env path auth v w = delete env path auth (PList [PInt 200]) w"
  using assms post_falsy [of v env path data auth fls as_json w]
    post_falsy [of "PBool False" env path data auth fls as_json w]
  by (simp add: get_def put_def delete_def)

text \<open>
  Claim C9 at concrete inputs: the empty list and \<^verbatim>\<open>None\<close> behave as the default, and
  with the empty list a response with status 200 is no error.
\<close>

theorem falsy_accepted_codes_default_witness:
  "\<not> truthy (PList []) \<and> \<not> truthy PNone \<and> \<not> truthy (PBool False)
   \<and> get (example_env 200) ''/items'' PNone False (PList []) fresh_world
       = get (example_env 200) ''/items'' PNone False (PBool False) fresh_world
   \<and> get (example_env 200) ''/items'' PNone False PNone fresh_world
       = get (example_env 200) ''/items'' PNone False (PBool False) fresh_world
   \<and> get (example_env 200) ''/items'' PNone False (PList []) fresh_world
       = (Inr (PDict []),
          fresh_world\<lparr>trace :=
             [Sent \<lparr>request_method = GET, url = url_of ''/items'', params = PDict [], headers = [],
                    payload = No_payload, files = PNone\<rparr>]\<rparr>)"
  using falsy_accepted_codes_default
          [where v = "PList []" and env = "example_env 200" and path = "''/items''" and ps = PNone
             and auth = False and w = fresh_world]
        falsy_accepted_codes_default
          [where v = PNone and env = "example_env 200" and path = "''/items''" and ps = PNone
             and auth = False and w = fresh_world]
  by (simp add: get_def auth_headers_def requests_send_def validate_response_def example_env_def
        fresh_world_def)

section \<open>Body keys\<close>

lemma drop_none_rename:
  "drop_none (map (\<lambda>kv. (f (fst kv), snd kv)) kvs)
     = map (\<lambda>kv. (f (fst kv), snd kv)) (drop_none kvs)"
  by (induction kvs) (auto simp: drop_none_def)

lemma edit_data_rename:
  "edit_item_data a = map (\<lambda>kv. (edit_key (fst kv), snd kv)) (create_item_data a)"
  by (simp add: edit_item_data_def create_item_data_def edit_key_def)

text \<open>
  Claim C8. On the same parameters, the body of \<^verbatim>\<open>edit_item\<close> is the body of
  \<^verbatim>\<open>create_item\<close> with three keys renamed and every other key and every value the same,
  before and after the entries with \<^verbatim>\<open>None\<close> are dropped: the minimum feedback, the
  minimum increase and the starting price are filed under snake-case keys by
  \<^verbatim>\<open>edit_item\<close> and under camel-case keys by \<^verbatim>\<open>create_item\<close>. The renamed body is
  what \<^verbatim>\<open>edit_item\<close> hands to \<^verbatim>\<open>put\<close>.
\<close>

theorem edit_item_keys_differ:
  "edit_item_data a = map (\<lambda>kv. (edit_key (fst kv), snd kv)) (create_item_data a)
   \<and> drop_none (edit_item_data a)
       = map (\<lambda>kv. (edit_key (fst kv), snd kv)) (drop_none (create_item_data a))
   \<and> map_of (create_item_data a) ''minimumFeedback'' = Some (minimum_feedback a)
   \<and> map_of (edit_item_data a) ''minimum_feedback'' = Some (minimum_feedback a)
   \<and> map_of (edit_item_data a) ''minimumFeedback'' = None
   \<and> map_of (create_item_data a) ''minimumIncrease'' = Some (minimum_increase a)
   \<and> map_of (edit_item_data a) ''minimum_increase'' = Some (minimum_increase a)
   \<and> map_of (edit_item_data a) ''minimumIncrease'' = None
   \<and> map_of (create_item_data a) ''startingPrice'' = Some (starting_price a)
   \<and> map_of (edit_item_data a) ''starting_price'' = Some (starting_price a)
   \<and> map_of (edit_item_data a) ''startingPrice'' = None
   \<and> edit_item env item_id a w
       = put env (''/items/'' @ py_str env item_id @ ''/'')
           (PDict (map (\<lambda>kv. (edit_key (fst kv), snd kv)) (drop_none (create_item_data a))))
           True (PList [PInt 200, PInt 201]) w"
proof -
  have 1: "edit_item_data a = map (\<lambda>kv. (edit_key (fst kv), snd kv)) (create_item_data a)"
    by (rule edit_data_rename)
  have 2: "drop_none (edit_item_data a)
       = map (\<lambda>kv. (edit_key (fst kv), snd kv)) (drop_none (create_item_data a))"
    by (simp only: edit_data_rename drop_none_rename)
  have 3: "map_of (create_item_data a) ''minimumFeedback'' = Some (minimum_feedback a)"
    "map_of (create_item_data a) ''minimumIncrease'' = Some (minimum_increase a)"
    "map_of (create_item_data a) ''startingPrice'' = Some (starting_price a)"
    by (simp_all add: create_item_data_def)
  have 4: "map_of (edit_item_data a) ''minimum_feedback'' = Some (minimum_feedback a)"
    "map_of (edit_item_data a) ''minimumFeedback'' = None"
    "map_of (edit_item_data a) ''minimum_increase'' = Some (minimum_increase a)"
    "map_of (edit_item_data a) ''minimumIncrease'' = None"
    "map_of (edit_item_data a) ''starting_price'' = Some (starting_price a)"
    "map_of (edit_item_data a) ''startingPrice'' = None"
    by (simp_all add: edit_item_data_def)
  have 5: "edit_item env item_id a w
       = put env (''/items/'' @ py_str env item_id @ ''/'')
           (PDict (map (\<lambda>kv. (edit_key (fst kv), snd kv)) (drop_none (create_item_data a))))
           True (PList [PInt 200, PInt 201]) w"
    by (simp only: edit_item_def 2)
  from 1 2 3 4 5 show ?thesis by blast
qed


section \<open>Properties of the parameter validation\<close>

lemma run_checks_append:
  "run_checks (xs @ ys)
     = (case run_checks xs of
          Raised e \<Rightarrow> Raised e
        | Returned v \<Rightarrow> Returned v
        | Passed u \<Rightarrow> run_checks ys)"
  by (induction xs) (auto split: step.splits)

lemma run_checks_split:
  "run_checks cs
     = (case run_checks (take n cs) of
          Raised e \<Rightarrow> Raised e
        | Returned v \<Rightarrow> Returned v
        | Passed u \<Rightarrow> run_checks (drop n cs))"
  using run_checks_append [of "take n cs" "drop n cs"] by simp

lemma coerce_prices_Inr:
  assumes "coerce_prices env a = Inr a'"
  obtains bnp mi sp where
    "float_or_none env (buy_now_price a) = Inr bnp"
    "float_or_none env (minimum_increase a) = Inr mi"
    "float_or_none env (starting_price a) = Inr sp"
    "a' = a\<lparr>buy_now_price := bnp, minimum_increase := mi, starting_price := sp\<rparr>"
  using assms by (auto simp: coerce_prices_def split: sum.splits)

lemma float_or_none_zero:
  assumes "py_eq_int v 0"
  shows "float_or_none env v = Inr PNone"
  using assms by (cases v) (auto simp: float_or_none_def split: if_splits)

lemma float_or_none_None: "float_or_none env PNone = Inr PNone"
  by (simp add: float_or_none_def)

text \<open>When the statements from the \<open>n\<close>-th on raise \<open>e\<close> whatever the prices were coerced
  to, the call stays local, the validation does not pass, and \<open>e\<close> is the outcome as soon
  as the statements before the \<open>n\<close>-th fall through.\<close>

lemma stops_raising:
  assumes "\<And>a'. coerce_prices env a = Inr a' \<Longrightarrow> run_checks (drop n (item_checks env a')) = Raised e"
  shows "snd (create_item env a w) = w"
    and "create_item_checks env a \<noteq> Passed b"
    and "coerce_prices env a = Inr a' \<Longrightarrow> run_checks (take n (item_checks env a')) = Passed ()
           \<Longrightarrow> create_item env a w = (Inl e, w)"
proof -
  have r: "run_checks (item_checks env a')
             = (case run_checks (take n (item_checks env a')) of
                  Raised x \<Rightarrow> Raised x | Returned v \<Rightarrow> Returned v | Passed u \<Rightarrow> Raised e)"
    if "coerce_prices env a = Inr a'" for a'
    by (subst run_checks_split [of _ n]) (simp only: assms [OF that])
  show np: "create_item_checks env a \<noteq> Passed b" for b
  proof (cases "coerce_prices env a")
    case (Inl x)
    then show ?thesis by (simp add: create_item_checks_def)
  next
    case (Inr a')
    then show ?thesis
      by (simp add: create_item_checks_def r [OF Inr] split: step.splits)
  qed
  show "snd (create_item env a w) = w"
  proof (cases "create_item_checks env a")
    case (Passed x)
    with np show ?thesis by blast
  qed (simp_all add: create_item_def)
  show "create_item env a w = (Inl e, w)"
    if "coerce_prices env a = Inr a'" "run_checks (take n (item_checks env a')) = Passed ()"
    using that r [OF that(1)] by (simp add: create_item_def create_item_checks_def)
qed

lemma stops_returning:
  assumes "\<And>a'. coerce_prices env a = Inr a' \<Longrightarrow> run_checks (drop n (item_checks env a')) = Returned v"
  shows "snd (create_item env a w) = w"
    and "create_item_checks env a \<noteq> Passed b"
    and "coerce_prices env a = Inr a' \<Longrightarrow> run_checks (take n (item_checks env a')) = Passed ()
           \<Longrightarrow> create_item env a w = (Inr v, w)"
proof -
  have r: "run_checks (item_checks env a')
             = (case run_checks (take n (item_checks env a')) of
                  Raised x \<Rightarrow> Raised x | Returned x \<Rightarrow> Returned x | Passed u \<Rightarrow> Returned v)"
    if "coerce_prices env a = Inr a'" for a'
    by (subst run_checks_split [of _ n]) (simp only: assms [OF that])
  show np: "create_item_checks env a \<noteq> Passed b" for b
  proof (cases "coerce_prices env a")
    case (Inl x)
    then show ?thesis by (simp add: create_item_checks_def)
  next
    case (Inr a')
    then show ?thesis
      by (simp add: create_item_checks_def r [OF Inr] split: step.splits)
  qed
  show "snd (create_item env a w) = w"
  proof (cases "create_item_checks env a")
    case (Passed x)
    with np show ?thesis by blast
  qed (simp_all add: create_item_def)
  show "create_item env a w = (Inr v, w)"
    if "coerce_prices env a = Inr a'" "run_checks (take n (item_checks env a')) = Passed ()"
    using that r [OF that(1)] by (simp add: create_item_def create_item_checks_def)
qed

lemma auction_without_price:
  assumes "sale_method a = PStr ''auction''" and "float_or_none env (starting_price a) = Inr PNone"
    and "coerce_prices env a = Inr a'"
  shows \<open>run_checks (drop 25 (item_checks env a'))
           = Raised (ValueError ''Must set "starting_price" when using "sale_method=auction".'')\<close>
proof -
  from assms have "sale_method a' = PStr ''auction''" and "starting_price a' = PNone"
    by (auto elim!: coerce_prices_Inr)
  then show ?thesis
    by (simp add: item_checks_def raise_if_def)
qed

lemma buy_now_without_price:
  assumes "sale_method a = PStr ''buy-now''" and "buy_now_price a = PNone"
    and "coerce_prices env a = Inr a'"
  shows \<open>run_checks (drop 23 (item_checks env a'))
           = Raised (ValueError ''Must set "buy_now_price" when using "sale_method=buy-now".'')\<close>
proof -
  from assms have "sale_method a' = PStr ''buy-now''" and "buy_now_price a' = PNone"
    by (auto simp: float_or_none_None elim!: coerce_prices_Inr)
  then show ?thesis
    by (simp add: item_checks_def raise_if_def)
qed

lemma malformed_closing_time:
  assumes "closing_time a = PStr s" and "s \<noteq> []" and "\<not> strptime_ok env s date_format"
    and "coerce_prices env a = Inr a'"
  shows "run_checks (drop 8 (item_checks env a')) = Returned (PBool False)"
proof -
  from assms have "closing_time a' = PStr s"
    by (auto elim!: coerce_prices_Inr)
  with assms(2,3) show ?thesis
    by (simp add: item_checks_def check_time_def)
qed

lemma malformed_list_time:
  assumes "list_time a = PStr s" and "s \<noteq> []" and "\<not> strptime_ok env s date_format"
    and "coerce_prices env a = Inr a'"
  shows "run_checks (drop 13 (item_checks env a')) = Returned (PBool False)"
proof -
  from assms have "list_time a' = PStr s"
    by (auto elim!: coerce_prices_Inr)
  with assms(2,3) show ?thesis
    by (simp add: item_checks_def check_time_def)
qed

lemma location_without_postal_code:
  assumes "postal_code a = PNone" and "is_location_abroad a \<noteq> PNone"
    and "\<not> py_eq_int (is_location_abroad a) 1"
    and "coerce_prices env a = Inr a'"
  shows \<open>run_checks (drop 11 (item_checks env a'))
           = Raised (if py_eq_int (is_location_abroad a) 0
                     then ValueError ''"postal_code" can not be empty if "is_location_abroad=0"''
                     else ValueError ''"is_location_abroad" must be "0" or "1"'')\<close>
proof -
  from assms have "postal_code a' = PNone" and "is_location_abroad a' = is_location_abroad a"
    by (auto elim!: coerce_prices_Inr)
  with assms(2,3) show ?thesis
    by (simp add: item_checks_def raise_if_def in_ints_def)
qed

lemma coerce_prices_postal_code:
  "coerce_prices env (a\<lparr>postal_code := p\<rparr>)
     = (case coerce_prices env a of Inl e \<Rightarrow> Inl e | Inr a' \<Rightarrow> Inr (a'\<lparr>postal_code := p\<rparr>))"
  by (simp add: coerce_prices_def split: sum.splits)

lemma item_checks_abroad:
  assumes "is_location_abroad a = PInt 1 \<or> is_location_abroad a = PNone"
  shows "item_checks env (a\<lparr>postal_code := p\<rparr>) = item_checks env (a\<lparr>postal_code := q\<rparr>)"
  using assms by (auto simp: item_checks_def)

lemma abroad_without_postal_code:
  assumes "is_location_abroad a = PInt 1 \<or> is_location_abroad a = PNone"
    and "create_item_checks env (a\<lparr>postal_code := p\<rparr>) = Passed b"
  shows "create_item_checks env (a\<lparr>postal_code := PNone\<rparr>) = Passed (b\<lparr>postal_code := PNone\<rparr>)"
proof (cases "coerce_prices env a")
  case (Inl e)
  with assms(2) show ?thesis
    by (simp add: create_item_checks_def coerce_prices_postal_code)
next
  case (Inr a')
  then have ab: "is_location_abroad a' = PInt 1 \<or> is_location_abroad a' = PNone"
    using assms(1) by (auto elim!: coerce_prices_Inr)
  from assms(2) Inr have b: "b = a'\<lparr>postal_code := p\<rparr>"
    and ok: "run_checks (item_checks env (a'\<lparr>postal_code := p\<rparr>)) = Passed ()"
    by (auto simp: create_item_checks_def coerce_prices_postal_code split: step.splits)
  from ok have "run_checks (item_checks env (a'\<lparr>postal_code := PNone\<rparr>)) = Passed ()"
    by (simp add: item_checks_abroad [OF ab, of env PNone p])
  with Inr b show ?thesis
    by (simp add: create_item_checks_def coerce_prices_postal_code)
qed


text \<open>
  Claim C5, as the code has it. When \<^verbatim>\<open>closing_time\<close> (or \<^verbatim>\<open>list_time\<close>) is a non-empty
  string that \<^verbatim>\<open>time.strptime\<close> does not accept for \<^verbatim>\<open>'%Y-%m-%d %H:%M:%S'\<close>,
  \<^verbatim>\<open>create_item\<close> leaves the world as it found it, so no request is sent, and its
  validation does not pass; when the price coercions succeed and the eight (thirteen)
  statements before the date check fall through, the call returns \<^verbatim>\<open>False\<close>. It raises
  only when one of those earlier statements raises.
\<close>

theorem malformed_time_returns_False:
  "(closing_time a = PStr s \<and> s \<noteq> [] \<and> \<not> strptime_ok env s date_format \<longrightarrow>
      snd (create_item env a w) = w
      \<and> (\<forall>b. create_item_checks env a \<noteq> Passed b)
      \<and> (\<forall>a'. coerce_prices env a = Inr a'
                \<and> run_checks (take 8 (item_checks env a')) = Passed ()
            \<longrightarrow> create_item env a w = (Inr (PBool False), w)))
   \<and> (list_time a = PStr s \<and> s \<noteq> [] \<and> \<not> strptime_ok env s date_format \<longrightarrow>
      snd (create_item env a w) = w
      \<and> (\<forall>b. create_item_checks env a \<noteq> Passed b)
      \<and> (\<forall>a'. coerce_prices env a = Inr a'
                \<and> run_checks (take 13 (item_checks env a')) = Passed ()
            \<longrightarrow> create_item env a w = (Inr (PBool False), w)))"
proof (intro conjI impI allI; (elim conjE)?)
  assume h: "closing_time a = PStr s" "s \<noteq> []" "\<not> strptime_ok env s date_format"
  note d = malformed_closing_time [OF h]
  show "snd (create_item env a w) = w"
    by (rule stops_returning(1) [where n = 8]) (rule d)
  show "create_item_checks env a \<noteq> Passed b" for b
    by (rule stops_returning(2) [where n = 8]) (rule d)
  show "create_item env a w = (Inr (PBool False), w)"
    if "coerce_prices env a = Inr a'" "run_checks (take 8 (item_checks env a')) = Passed ()" for a'
    using that by (rule stops_returning(3) [where n = 8, rotated]) (rule d)
next
  assume h: "list_time a = PStr s" "s \<noteq> []" "\<not> strptime_ok env s date_format"
  note d = malformed_list_time [OF h]
  show "snd (create_item env a w) = w"
    by (rule stops_returning(1) [where n = 13]) (rule d)
  show "create_item_checks env a \<noteq> Passed b" for b
    by (rule stops_returning(2) [where n = 13]) (rule d)
  show "create_item env a w = (Inr (PBool False), w)"
    if "coerce_prices env a = Inr a'" "run_checks (take 13 (item_checks env a')) = Passed ()" for a'
    using that by (rule stops_returning(3) [where n = 13, rotated]) (rule d)
qed

text \<open>
  Claim C7. With \<^verbatim>\<open>sale_method='auction'\<close> and no \<^verbatim>\<open>starting_price\<close>, and with
  \<^verbatim>\<open>sale_method='buy-now'\<close> and no \<^verbatim>\<open>buy_now_price\<close>, \<^verbatim>\<open>create_item\<close> leaves the world
  as it found it, so no request is sent, and its validation does not pass; when the price
  coercions succeed and the statements before the price check fall through, the call
  raises the \<^verbatim>\<open>ValueError\<close> that asks for the missing price.
\<close>

theorem missing_price_fails_validation:
  \<open>(sale_method a = PStr ''auction'' \<and> starting_price a = PNone \<longrightarrow>
      snd (create_item env a w) = w
      \<and> (\<forall>b. create_item_checks env a \<noteq> Passed b)
      \<and> (\<forall>a'. coerce_prices env a = Inr a'
                \<and> run_checks (take 25 (item_checks env a')) = Passed ()
            \<longrightarrow> create_item env a w
                  = (Inl (ValueError ''Must set "starting_price" when using "sale_method=auction".''), w)))
   \<and> (sale_method a = PStr ''buy-now'' \<and> buy_now_price a = PNone \<longrightarrow>
      snd (create_item env a w) = w
      \<and> (\<forall>b. create_item_checks env a \<noteq> Passed b)
      \<and> (\<forall>a'. coerce_prices env a = Inr a'
                \<and> run_checks (take 23 (item_checks env a')) = Passed ()
            \<longrightarrow> create_item env a w
                  = (Inl (ValueError ''Must set "buy_now_price" when using "sale_method=buy-now".''), w)))\<close>
proof (intro conjI impI allI; (elim conjE)?)
  assume h: "sale_method a = PStr ''auction''" "starting_price a = PNone"
  have f: "float_or_none env (starting_price a) = Inr PNone"
    using h(2) by (simp add: float_or_none_None)
  note d = auction_without_price [OF h(1) f]
  show "snd (create_item env a w) = w"
    by (rule stops_raising(1) [where n = 25]) (rule d)
  show "create_item_checks env a \<noteq> Passed b" for b
    by (rule stops_raising(2) [where n = 25]) (rule d)
  show \<open>create_item env a w
          = (Inl (ValueError ''Must set "starting_price" when using "sale_method=auction".''), w)\<close>
    if "coerce_prices env a = Inr a'" "run_checks (take 25 (item_checks env a')) = Passed ()" for a'
    using that by (rule stops_raising(3) [where n = 25, rotated]) (rule d)
next
  assume h: "sale_method a = PStr ''buy-now''" "buy_now_price a = PNone"
  note d = buy_now_without_price [OF h]
  show "snd (create_item env a w) = w"
    by (rule stops_raising(1) [where n = 23]) (rule d)
  show "create_item_checks env a \<noteq> Passed b" for b
    by (rule stops_raising(2) [where n = 23]) (rule d)
  show \<open>create_item env a w
          = (Inl (ValueError ''Must set "buy_now_price" when using "sale_method=buy-now".''), w)\<close>
    if "coerce_prices env a = Inr a'" "run_checks (take 23 (item_checks env a')) = Passed ()" for a'
    using that by (rule stops_raising(3) [where n = 23, rotated]) (rule d)
qed

text \<open>
  Claim C6, as the code has it. When \<^verbatim>\<open>postal_code\<close> is \<^verbatim>\<open>None\<close> and
  \<^verbatim>\<open>is_location_abroad\<close> is given and is not 1, \<^verbatim>\<open>create_item\<close> leaves the world as it
  found it and its validation does not pass; when the price coercions succeed and the
  eleven statements before the two location checks fall through, the call raises the
  \<^verbatim>\<open>ValueError\<close> about the postal code for the value 0 and the one about
  \<^verbatim>\<open>is_location_abroad\<close> for any other value. With \<^verbatim>\<open>is_location_abroad=1\<close>, a call
  that passes the validation with some postal code passes it without one, and goes on to
  the \<^verbatim>\<open>post\<close> of the same body less the postal code. The same holds when
  \<^verbatim>\<open>is_location_abroad\<close> is left out (\<^verbatim>\<open>None\<close>): the check of the postal code is
  skipped, and leaving the postal code out changes neither the outcome of the validation
  nor anything else of the request.
\<close>

theorem postal_code_needed_at_home:
  \<open>(postal_code a = PNone \<and> is_location_abroad a \<noteq> PNone \<and> \<not> py_eq_int (is_location_abroad a) 1 \<longrightarrow>
      snd (create_item env a w) = w
      \<and> (\<forall>b. create_item_checks env a \<noteq> Passed b)
      \<and> (\<forall>a'. coerce_prices env a = Inr a'
                \<and> run_checks (take 11 (item_checks env a')) = Passed ()
            \<longrightarrow> create_item env a w
                  = (Inl (if py_eq_int (is_location_abroad a) 0
                          then ValueError ''"postal_code" can not be empty if "is_location_abroad=0"''
                          else ValueError ''"is_location_abroad" must be "0" or "1"''), w)))
   \<and> (is_location_abroad a = PInt 1 \<longrightarrow>
        (\<forall>p b. create_item_checks env (a\<lparr>postal_code := p\<rparr>) = Passed b \<longrightarrow>
           create_item_checks env (a\<lparr>postal_code := PNone\<rparr>) = Passed (b\<lparr>postal_code := PNone\<rparr>)
           \<and> create_item env (a\<lparr>postal_code := PNone\<rparr>) w
               = post env ''/items''
                   (PDict (drop_none (create_item_data (b\<lparr>postal_code := PNone\<rparr>)))) True
                   (PList [PInt 200, PInt 201]) PNone True w))
   \<and> (is_location_abroad a = PNone \<longrightarrow>
        (\<forall>p b. create_item_checks env (a\<lparr>postal_code := p\<rparr>) = Passed b \<longrightarrow>
           create_item_checks env (a\<lparr>postal_code := PNone\<rparr>) = Passed (b\<lparr>postal_code := PNone\<rparr>)
           \<and> create_item env (a\<lparr>postal_code := PNone\<rparr>) w
               = post env ''/items''
                   (PDict (drop_none (create_item_data (b\<lparr>postal_code := PNone\<rparr>)))) True
                   (PList [PInt 200, PInt 201]) PNone True w))\<close>
proof (intro conjI impI allI; (elim conjE)?)
  assume h: "postal_code a = PNone" "is_location_abroad a \<noteq> PNone"
    "\<not> py_eq_int (is_location_abroad a) 1"
  note d = location_without_postal_code [OF h]
  show "snd (create_item env a w) = w"
    by (rule stops_raising(1) [where n = 11]) (rule d)
  show "create_item_checks env a \<noteq> Passed b" for b
    by (rule stops_raising(2) [where n = 11]) (rule d)
  show \<open>create_item env a w
          = (Inl (if py_eq_int (is_location_abroad a) 0
                  then ValueError ''"postal_code" can not be empty if "is_location_abroad=0"''
                  else ValueError ''"is_location_abroad" must be "0" or "1"''), w)\<close>
    if "coerce_prices env a = Inr a'" "run_checks (take 11 (item_checks env a')) = Passed ()" for a'
    using that by (rule stops_raising(3) [where n = 11, rotated]) (rule d)
next
  fix p b
  assume h: "is_location_abroad a = PInt 1" "create_item_checks env (a\<lparr>postal_code := p\<rparr>) = Passed b"
  show c: "create_item_checks env (a\<lparr>postal_code := PNone\<rparr>) = Passed (b\<lparr>postal_code := PNone\<rparr>)"
    using h by (intro abroad_without_postal_code [where p = p]) simp_all
  show "create_item env (a\<lparr>postal_code := PNone\<rparr>) w
               = post env ''/items''
                   (PDict (drop_none (create_item_data (b\<lparr>postal_code := PNone\<rparr>)))) True
                   (PList [PInt 200, PInt 201]) PNone True w"
    by (simp add: create_item_def c)
next
  fix p b
  assume h: "is_location_abroad a = PNone" "create_item_checks env (a\<lparr>postal_code := p\<rparr>) = Passed b"
  show c: "create_item_checks env (a\<lparr>postal_code := PNone\<rparr>) = Passed (b\<lparr>postal_code := PNone\<rparr>)"
    using h by (intro abroad_without_postal_code [where p = p]) simp_all
  show "create_item env (a\<lparr>postal_code := PNone\<rparr>) w
               = post env ''/items''
                   (PDict (drop_none (create_item_data (b\<lparr>postal_code := PNone\<rparr>)))) True
                   (PList [PInt 200, PInt 201]) PNone True w"
    by (simp add: create_item_def c)
qed


lemma coerce_prices_zero_start:
  assumes "py_eq_int v 0"
  shows "coerce_prices env (a\<lparr>starting_price := v\<rparr>) = coerce_prices env (a\<lparr>starting_price := PNone\<rparr>)"
  by (simp add: coerce_prices_def float_or_none_zero [OF assms] float_or_none_None split: sum.splits)

lemma create_item_zero_start:
  assumes "py_eq_int v 0"
  shows "create_item env (a\<lparr>starting_price := v\<rparr>) w = create_item env (a\<lparr>starting_price := PNone\<rparr>) w"
  by (simp add: create_item_def create_item_checks_def coerce_prices_zero_start [OF assms])

text \<open>
  Claim C10. A price equal to zero is coerced to \<^verbatim>\<open>None\<close>. \<^verbatim>\<open>create_item\<close> with
  \<^verbatim>\<open>starting_price=0\<close> is the call with no starting price, and in an auction it stays
  local and raises the \<^verbatim>\<open>ValueError\<close> that asks for the starting price as soon as the
  statements before that check fall through. \<^verbatim>\<open>list_items\<close> with \<^verbatim>\<open>price_min=0\<close> (or
  \<^verbatim>\<open>price_max=0\<close>) is the call with that parameter left out, and the parameters it hands
  to \<^verbatim>\<open>get\<close> carry \<^verbatim>\<open>None\<close> for it, which \<^verbatim>\<open>requests\<close> leaves out of the query
  string.
\<close>

theorem zero_price_is_absent:
  \<open>py_eq_int v 0 \<longrightarrow>
     float_or_none env v = Inr PNone
     \<and> create_item env (a\<lparr>starting_price := v\<rparr>) w
         = create_item env (a\<lparr>starting_price := PNone\<rparr>) w
     \<and> (sale_method a = PStr ''auction'' \<longrightarrow>
          snd (create_item env (a\<lparr>starting_price := v\<rparr>) w) = w
          \<and> (\<forall>a'. coerce_prices env (a\<lparr>starting_price := v\<rparr>) = Inr a'
                    \<and> run_checks (take 25 (item_checks env a')) = Passed ()
                \<longrightarrow> create_item env (a\<lparr>starting_price := v\<rparr>) w
                      = (Inl (ValueError ''Must set "starting_price" when using "sale_method=auction".''), w)))
     \<and> list_items env addtime area biddernro category classification closingtime feedback_limit
          limit page price_max v seller_type sellernro sellstyle sort_by search_status search_words w
         = list_items env addtime area biddernro category classification closingtime feedback_limit
             limit page price_max PNone seller_type sellernro sellstyle sort_by search_status
             search_words w
     \<and> list_items env addtime area biddernro category classification closingtime feedback_limit
          limit page v price_min seller_type sellernro sellstyle sort_by search_status search_words w
         = list_items env addtime area biddernro category classification closingtime feedback_limit
             limit page PNone price_min seller_type sellernro sellstyle sort_by search_status
             search_words w
     \<and> (\<forall>pm. run_checks (search_checks addtime classification limit sellstyle sort_by biddernro
                            feedback_limit page sellernro) = Passed ()
               \<and> float_or_none env price_max = Inr pm
           \<longrightarrow> list_items env addtime area biddernro category classification closingtime
                  feedback_limit limit page price_max v seller_type sellernro sellstyle sort_by
                  search_status search_words w
                 = get env ''/items''
                     (PDict (search_params addtime area biddernro category classification
                               closingtime feedback_limit limit page pm PNone seller_type
                               sellernro sellstyle sort_by search_status search_words))
                     False (PBool False) w)\<close>
proof (intro conjI impI allI; (elim conjE)?)
  assume z: "py_eq_int v 0"
  show f: "float_or_none env v = Inr PNone"
    using z by (rule float_or_none_zero)
  show "create_item env (a\<lparr>starting_price := v\<rparr>) w = create_item env (a\<lparr>starting_price := PNone\<rparr>) w"
    using z by (rule create_item_zero_start)
  show "list_items env addtime area biddernro category classification closingtime feedback_limit
          limit page price_max v seller_type sellernro sellstyle sort_by search_status search_words w
         = list_items env addtime area biddernro category classification closingtime feedback_limit
             limit page price_max PNone seller_type sellernro sellstyle sort_by search_status
             search_words w"
    by (simp add: list_items_def f float_or_none_None split: step.splits sum.splits)
  show "list_items env addtime area biddernro category classification closingtime feedback_limit
          limit page v price_min seller_type sellernro sellstyle sort_by search_status search_words w
         = list_items env addtime area biddernro category classification closingtime feedback_limit
             limit page PNone price_min seller_type sellernro sellstyle sort_by search_status
             search_words w"
    by (simp add: list_items_def f float_or_none_None split: step.splits sum.splits)
  show "list_items env addtime area biddernro category classification closingtime
                  feedback_limit limit page price_max v seller_type sellernro sellstyle sort_by
                  search_status search_words w
                 = get env ''/items''
                     (PDict (search_params addtime area biddernro category classification
                               closingtime feedback_limit limit page pm PNone seller_type
                               sellernro sellstyle sort_by search_status search_words))
                     False (PBool False) w"
    if "run_checks (search_checks addtime classification limit sellstyle sort_by biddernro
                            feedback_limit page sellernro) = Passed ()"
       "float_or_none env price_max = Inr pm" for pm
    using that by (simp add: list_items_def f)
next
  assume z: "py_eq_int v 0" and h: "sale_method a = PStr ''auction''"
  have s: "sale_method (a\<lparr>starting_price := v\<rparr>) = PStr ''auction''"
    using h by simp
  have f: "float_or_none env (starting_price (a\<lparr>starting_price := v\<rparr>)) = Inr PNone"
    using z by (simp add: float_or_none_zero)
  note d = auction_without_price [OF s f]
  show "snd (create_item env (a\<lparr>starting_price := v\<rparr>) w) = w"
    by (rule stops_raising(1) [where n = 25]) (rule d)
  show \<open>create_item env (a\<lparr>starting_price := v\<rparr>) w
          = (Inl (ValueError ''Must set "starting_price" when using "sale_method=auction".''), w)\<close>
    if "coerce_prices env (a\<lparr>starting_price := v\<rparr>) = Inr a'"
       "run_checks (take 25 (item_checks env a')) = Passed ()" for a'
    using that by (rule stops_raising(3) [where n = 25, rotated]) (rule d)
qed

section \<open>The validation at concrete inputs\<close>

lemmas check_defs =
  create_item_checks_def coerce_prices_def float_or_none_def item_checks_def call_is_type_def
  is_type_def isinstance_def raise_if_def check_time_def check_members_def in_strs_def
  in_ints_def date_format_def draft_item_def default_item_def example_env_def

lemma fresh_token: "token fresh_world = Inr ''0123456789abcdef0123456789abcdef''"
  by (simp add: token_def cfg_getitem_def fresh_world_def example_cfg_def)

lemma fresh_authenticate:
  "authenticate (example_env st) fresh_world = (Inr ''0123456789abcdef0123456789abcdef'', fresh_world)"
  by (simp add: authenticate_def config_def get_token_data_def token_def cfg_getitem_def
        fresh_world_def example_cfg_def example_env_def)

lemma fresh_headers:
  "auth_headers (example_env st) True fresh_world
     = (Inr [(''X-HuutoApiToken'', ''0123456789abcdef0123456789abcdef'')], fresh_world)"
  by (simp add: auth_headers_def fresh_authenticate fresh_token)

lemma fresh_post_json:
  "post (example_env 200) path data True (PList [PInt 200, PInt 201]) PNone True fresh_world
     = (Inr (PDict []),
        fresh_world\<lparr>trace :=
          [Sent \<lparr>request_method = POST, url = url_of path, params = PNone,
                 headers = [(''X-HuutoApiToken'', ''0123456789abcdef0123456789abcdef'')],
                 payload = Json_data data, files = PNone\<rparr>]\<rparr>)"
  unfolding post_def fresh_headers prod.case sum.case
  by (simp add: post_send_def requests_send_def validate_response_def example_env_def
        fresh_world_def)

text \<open>
  Claim C5 at concrete inputs: the draft of the tests with a closing time, and with a
  list time, that is not a date.
\<close>

theorem malformed_time_returns_False_witness:
  "closing_time (draft_item\<lparr>closing_time := PStr ''tomorrow''\<rparr>) = PStr ''tomorrow''
   \<and> ''tomorrow'' \<noteq> [] \<and> \<not> strptime_ok (example_env 200) ''tomorrow'' date_format
   \<and> create_item (example_env 200) (draft_item\<lparr>closing_time := PStr ''tomorrow''\<rparr>) fresh_world
       = (Inr (PBool False), fresh_world)
   \<and> list_time (draft_item\<lparr>list_time := PStr ''tomorrow''\<rparr>) = PStr ''tomorrow''
   \<and> create_item (example_env 200) (draft_item\<lparr>list_time := PStr ''tomorrow''\<rparr>) fresh_world
       = (Inr (PBool False), fresh_world)"
  using malformed_time_returns_False
          [where a = "draft_item\<lparr>closing_time := PStr ''tomorrow''\<rparr>" and s = "''tomorrow''"
             and env = "example_env 200" and w = fresh_world]
        malformed_time_returns_False
          [where a = "draft_item\<lparr>list_time := PStr ''tomorrow''\<rparr>" and s = "''tomorrow''"
             and env = "example_env 200" and w = fresh_world]
  by (simp add: check_defs)

text \<open>
  Claim C5 as it is stated fails: a call with a closing time that lacks the time of day
  does not fail with a validation error, it returns \<^verbatim>\<open>False\<close>.
\<close>

theorem malformed_time_raises_nothing:
  "create_item (example_env 200)
     (draft_item\<lparr>closing_time := PStr ''2016-12-04'', list_time := PStr ''2016-11-20 19:26:00'',
                open_days := PNone\<rparr>) fresh_world
     = (Inr (PBool False), fresh_world)"
  by (simp add: create_item_def check_defs)

text \<open>
  Claim C7 at concrete inputs: the draft of the tests without its starting price, and the
  same draft sold at a fixed price without a buy-now price.
\<close>

theorem missing_price_fails_validation_witness:
  \<open>sale_method (draft_item\<lparr>starting_price := PNone\<rparr>) = PStr ''auction''
   \<and> starting_price (draft_item\<lparr>starting_price := PNone\<rparr>) = PNone
   \<and> create_item (example_env 200) (draft_item\<lparr>starting_price := PNone\<rparr>) fresh_world
       = (Inl (ValueError ''Must set "starting_price" when using "sale_method=auction".''), fresh_world)
   \<and> sale_method (draft_item\<lparr>sale_method := PStr ''buy-now''\<rparr>) = PStr ''buy-now''
   \<and> buy_now_price (draft_item\<lparr>sale_method := PStr ''buy-now''\<rparr>) = PNone
   \<and> create_item (example_env 200) (draft_item\<lparr>sale_method := PStr ''buy-now''\<rparr>) fresh_world
       = (Inl (ValueError ''Must set "buy_now_price" when using "sale_method=buy-now".''), fresh_world)\<close>
  using missing_price_fails_validation
          [where a = "draft_item\<lparr>starting_price := PNone\<rparr>"
             and env = "example_env 200" and w = fresh_world]
        missing_price_fails_validation
          [where a = "draft_item\<lparr>sale_method := PStr ''buy-now''\<rparr>"
             and env = "example_env 200" and w = fresh_world]
  by (simp add: check_defs)


lemma draft_passes:
  "create_item_checks (example_env 200) draft_item = Passed (draft_item\<lparr>starting_price := PFloat 1\<rparr>)"
  by (simp add: check_defs)

lemma draft_body:
  "drop_none (create_item_data (draft_item\<lparr>starting_price := PFloat 1\<rparr>))
     = [(''openDays'', PInt 3), (''quantity'', PInt 1), (''saleMethod'', PStr ''auction''),
        (''startingPrice'', PFloat 1), (''status'', PStr ''draft'')]"
  by (simp add: drop_none_def create_item_data_def draft_item_def default_item_def)

text \<open>
  Claim C6 as it is stated fails: the call of \<^verbatim>\<open>test_create_item_draft\<close> gives neither
  a postal code nor \<^verbatim>\<open>is_location_abroad\<close>, passes the validation, and is sent.
\<close>

theorem draft_without_postal_code_is_sent:
  "postal_code draft_item = PNone \<and> is_location_abroad draft_item = PNone
   \<and> create_item_checks (example_env 200) draft_item
       = Passed (draft_item\<lparr>starting_price := PFloat 1\<rparr>)
   \<and> create_item (example_env 200) draft_item fresh_world
       = (Inr (PDict []),
          fresh_world\<lparr>trace :=
            [Sent \<lparr>request_method = POST, url = url_of ''/items'', params = PNone,
                   headers = [(''X-HuutoApiToken'', ''0123456789abcdef0123456789abcdef'')],
                   payload = Json_data (PDict [(''openDays'', PInt 3), (''quantity'', PInt 1),
                                               (''saleMethod'', PStr ''auction''),
                                               (''startingPrice'', PFloat 1),
                                               (''status'', PStr ''draft'')]),
                   files = PNone\<rparr>]\<rparr>)"
proof -
  have "create_item (example_env 200) draft_item fresh_world
       = post (example_env 200) ''/items''
           (PDict [(''openDays'', PInt 3), (''quantity'', PInt 1), (''saleMethod'', PStr ''auction''),
                   (''startingPrice'', PFloat 1), (''status'', PStr ''draft'')])
           True (PList [PInt 200, PInt 201]) PNone True fresh_world"
    by (simp add: create_item_def draft_passes draft_body)
  then show ?thesis
    by (simp add: fresh_post_json draft_passes) (simp add: draft_item_def default_item_def)
qed

lemma abroad_passes:
  "create_item_checks (example_env 200)
     (draft_item\<lparr>is_location_abroad := PInt 1, postal_code := PStr ''02780''\<rparr>)
     = Passed (draft_item\<lparr>is_location_abroad := PInt 1, postal_code := PStr ''02780'',
                          starting_price := PFloat 1\<rparr>)"
  by (simp add: check_defs)

lemma abroad_body:
  "drop_none (create_item_data
      (draft_item\<lparr>is_location_abroad := PInt 1, postal_code := PNone, starting_price := PFloat 1\<rparr>))
     = [(''isLocationAbroad'', PInt 1), (''openDays'', PInt 3), (''quantity'', PInt 1),
        (''saleMethod'', PStr ''auction''), (''startingPrice'', PFloat 1),
        (''status'', PStr ''draft'')]"
  by (simp add: drop_none_def create_item_data_def draft_item_def default_item_def)

lemma titled_passes:
  "create_item_checks (example_env 200)
     (draft_item\<lparr>title := PStr ''Test'', postal_code := PStr ''02780''\<rparr>)
     = Passed (draft_item\<lparr>title := PStr ''Test'', postal_code := PStr ''02780'',
                          starting_price := PFloat 1\<rparr>)"
  by (simp add: check_defs)

lemma titled_body:
  "drop_none (create_item_data
      ((draft_item\<lparr>title := PStr ''Test'', postal_code := PStr ''02780'',
                    starting_price := PFloat 1\<rparr>)\<lparr>postal_code := PNone\<rparr>))
     = [(''openDays'', PInt 3), (''quantity'', PInt 1), (''saleMethod'', PStr ''auction''),
        (''startingPrice'', PFloat 1), (''status'', PStr ''draft''), (''title'', PStr ''Test'')]"
  by (simp add: drop_none_def create_item_data_def draft_item_def default_item_def)

text \<open>
  Claim C6 at concrete inputs: the draft of the tests with \<^verbatim>\<open>is_location_abroad=0\<close> and
  no postal code is refused, with \<^verbatim>\<open>is_location_abroad=1\<close> and no postal code it is
  sent, and with a title, no \<^verbatim>\<open>is_location_abroad\<close> and no postal code it is sent.
\<close>

theorem postal_code_needed_at_home_witness:
  \<open>postal_code (draft_item\<lparr>is_location_abroad := PInt 0\<rparr>) = PNone
   \<and> is_location_abroad (draft_item\<lparr>is_location_abroad := PInt 0\<rparr>) \<noteq> PNone
   \<and> \<not> py_eq_int (is_location_abroad (draft_item\<lparr>is_location_abroad := PInt 0\<rparr>)) 1
   \<and> create_item (example_env 200) (draft_item\<lparr>is_location_abroad := PInt 0\<rparr>) fresh_world
       = (Inl (ValueError ''"postal_code" can not be empty if "is_location_abroad=0"''), fresh_world)
   \<and> is_location_abroad (draft_item\<lparr>is_location_abroad := PInt 1\<rparr>) = PInt 1
   \<and> create_item_checks (example_env 200)
        (draft_item\<lparr>is_location_abroad := PInt 1, postal_code := PStr ''02780''\<rparr>)
       = Passed (draft_item\<lparr>is_location_abroad := PInt 1, postal_code := PStr ''02780'',
                            starting_price := PFloat 1\<rparr>)
   \<and> create_item (example_env 200)
        (draft_item\<lparr>is_location_abroad := PInt 1, postal_code := PNone\<rparr>) fresh_world
       = (Inr (PDict []),
          fresh_world\<lparr>trace :=
            [Sent \<lparr>request_method = POST, url = url_of ''/items'', params = PNone,
                   headers = [(''X-HuutoApiToken'', ''0123456789abcdef0123456789abcdef'')],
                   payload = Json_data (PDict [(''isLocationAbroad'', PInt 1),
                                               (''openDays'', PInt 3), (''quantity'', PInt 1),
                                               (''saleMethod'', PStr ''auction''),
                                               (''startingPrice'', PFloat 1),
                                               (''status'', PStr ''draft'')]),
                   files = PNone\<rparr>]\<rparr>)
   \<and> is_location_abroad (draft_item\<lparr>title := PStr ''Test''\<rparr>) = PNone
   \<and> create_item_checks (example_env 200)
        (draft_item\<lparr>title := PStr ''Test'', postal_code := PStr ''02780''\<rparr>)
       = Passed (draft_item\<lparr>title := PStr ''Test'', postal_code := PStr ''02780'',
                            starting_price := PFloat 1\<rparr>)
   \<and> create_item (example_env 200)
        (draft_item\<lparr>title := PStr ''Test'', postal_code := PNone\<rparr>) fresh_world
       = (Inr (PDict []),
          fresh_world\<lparr>trace :=
            [Sent \<lparr>request_method = POST, url = url_of ''/items'', params = PNone,
                   headers = [(''X-HuutoApiToken'', ''0123456789abcdef0123456789abcdef'')],
                   payload = Json_data (PDict [(''openDays'', PInt 3), (''quantity'', PInt 1),
                                               (''saleMethod'', PStr ''auction''),
                                               (''startingPrice'', PFloat 1),
                                               (''status'', PStr ''draft''),
                                               (''title'', PStr ''Test'')]),
                   files = PNone\<rparr>]\<rparr>)\<close>
proof -
  have 1: \<open>create_item (example_env 200) (draft_item\<lparr>is_location_abroad := PInt 0\<rparr>) fresh_world
       = (Inl (ValueError ''"postal_code" can not be empty if "is_location_abroad=0"''), fresh_world)\<close>
    using postal_code_needed_at_home
            [where a = "draft_item\<lparr>is_location_abroad := PInt 0\<rparr>"
               and env = "example_env 200" and w = fresh_world]
    by (simp add: check_defs)
  have "create_item (example_env 200)
          (draft_item\<lparr>is_location_abroad := PInt 1, postal_code := PNone\<rparr>) fresh_world
       = post (example_env 200) ''/items''
           (PDict (drop_none (create_item_data
              (draft_item\<lparr>is_location_abroad := PInt 1, postal_code := PNone,
                           starting_price := PFloat 1\<rparr>))))
           True (PList [PInt 200, PInt 201]) PNone True fresh_world"
    using postal_code_needed_at_home
            [where a = "draft_item\<lparr>is_location_abroad := PInt 1\<rparr>"
               and env = "example_env 200" and w = fresh_world]
          abroad_passes
    by (simp add: draft_item_def default_item_def)
  then have 2: "create_item (example_env 200)
        (draft_item\<lparr>is_location_abroad := PInt 1, postal_code := PNone\<rparr>) fresh_world
       = (Inr (PDict []),
          fresh_world\<lparr>trace :=
            [Sent \<lparr>request_method = POST, url = url_of ''/items'', params = PNone,
                   headers = [(''X-HuutoApiToken'', ''0123456789abcdef0123456789abcdef'')],
                   payload = Json_data (PDict [(''isLocationAbroad'', PInt 1),
                                               (''openDays'', PInt 3), (''quantity'', PInt 1),
                                               (''saleMethod'', PStr ''auction''),
                                               (''startingPrice'', PFloat 1),
                                               (''status'', PStr ''draft'')]),
                   files = PNone\<rparr>]\<rparr>)"
    by (simp only: abroad_body fresh_post_json)
  have n: "is_location_abroad (draft_item\<lparr>title := PStr ''Test''\<rparr>) = PNone"
    by (simp add: draft_item_def default_item_def)
  note t = postal_code_needed_at_home
             [where a = "draft_item\<lparr>title := PStr ''Test''\<rparr>" and env = "example_env 200"
                and w = fresh_world,
              THEN conjunct2, THEN conjunct2, THEN mp, OF n, THEN spec, THEN spec, THEN mp,
              THEN conjunct2]
  have "create_item (example_env 200)
          (draft_item\<lparr>title := PStr ''Test'', postal_code := PNone\<rparr>) fresh_world
       = post (example_env 200) ''/items''
           (PDict (drop_none (create_item_data
              ((draft_item\<lparr>title := PStr ''Test'', postal_code := PStr ''02780'',
                            starting_price := PFloat 1\<rparr>)\<lparr>postal_code := PNone\<rparr>))))
           True (PList [PInt 200, PInt 201]) PNone True fresh_world"
    using t [OF titled_passes] by simp
  then have 3: "create_item (example_env 200)
        (draft_item\<lparr>title := PStr ''Test'', postal_code := PNone\<rparr>) fresh_world
       = (Inr (PDict []),
          fresh_world\<lparr>trace :=
            [Sent \<lparr>request_method = POST, url = url_of ''/items'', params = PNone,
                   headers = [(''X-HuutoApiToken'', ''0123456789abcdef0123456789abcdef'')],
                   payload = Json_data (PDict [(''openDays'', PInt 3), (''quantity'', PInt 1),
                                               (''saleMethod'', PStr ''auction''),
                                               (''startingPrice'', PFloat 1),
                                               (''status'', PStr ''draft''),
                                               (''title'', PStr ''Test'')]),
                   files = PNone\<rparr>]\<rparr>)"
    by (simp only: titled_body fresh_post_json)
  have 0: "postal_code draft_item = PNone"
    by (simp add: draft_item_def default_item_def)
  from 0 1 2 3 n abroad_passes titled_passes show ?thesis
    by simp
qed

text \<open>
  Claim C10 at concrete inputs: the draft of the tests with \<^verbatim>\<open>starting_price=0\<close>, and
  the search of \<^verbatim>\<open>test_list_items_response_ok\<close> with \<^verbatim>\<open>price_min=0\<close>.
\<close>

theorem zero_price_is_absent_witness:
  \<open>py_eq_int (PInt 0) 0
   \<and> sale_method draft_item = PStr ''auction''
   \<and> create_item (example_env 200) (draft_item\<lparr>starting_price := PInt 0\<rparr>) fresh_world
       = (Inl (ValueError ''Must set "starting_price" when using "sale_method=auction".''), fresh_world)
   \<and> list_items (example_env 200) (PStr ''past-5days'') PNone PNone PNone (PStr ''new'') PNone
        (PInt 1) (PInt 500) (PInt 2) (PInt 10) (PInt 0) PNone PNone PNone PNone PNone
        (PStr ''levy'') fresh_world
       = (Inr (PDict []),
          fresh_world\<lparr>trace :=
            [Sent \<lparr>request_method = GET, url = url_of ''/items'',
                   params = PDict [(''addtime'', PStr ''past-5days''), (''area'', PNone),
                                   (''biddernro'', PNone), (''category'', PNone),
                                   (''classification'', PStr ''new''), (''closingtime'', PNone),
                                   (''feedback_limit'', PInt 1), (''limit'', PInt 500),
                                   (''page'', PInt 2), (''price_min'', PNone),
                                   (''price_max'', PFloat 10), (''seller_type'', PNone),
                                   (''sellernro'', PNone), (''sellstyle'', PNone),
                                   (''sort'', PNone), (''status'', PNone),
                                   (''words'', PStr ''levy'')],
                   headers = [], payload = No_payload, files = PNone\<rparr>]\<rparr>)\<close>
proof -
  have z: "py_eq_int (PInt 0) 0"
    by simp
  have sm: "sale_method draft_item = PStr ''auction''"
    by (simp add: draft_item_def)
  note t = zero_price_is_absent
             [where v = "PInt 0" and a = draft_item and env = "example_env 200" and w = fresh_world
                and addtime = "PStr ''past-5days''" and area = PNone and biddernro = PNone
                and category = PNone and classification = "PStr ''new''" and closingtime = PNone
                and feedback_limit = "PInt 1" and limit = "PInt 500" and page = "PInt 2"
                and price_max = "PInt 10" and price_min = PNone and seller_type = PNone
                and sellernro = PNone and sellstyle = PNone and sort_by = PNone
                and search_status = PNone and search_words = "PStr ''levy''", THEN mp, OF z]
  note t3 = t [THEN conjunct2, THEN conjunct2, THEN conjunct1, THEN mp, OF sm, THEN conjunct2,
               THEN spec, THEN mp]
  note t6 = t [THEN conjunct2, THEN conjunct2, THEN conjunct2, THEN conjunct2, THEN conjunct2,
               THEN spec, THEN mp]
  have 1: \<open>create_item (example_env 200) (draft_item\<lparr>starting_price := PInt 0\<rparr>) fresh_world
       = (Inl (ValueError ''Must set "starting_price" when using "sale_method=auction".''), fresh_world)\<close>
    by (rule t3 [of "draft_item\<lparr>starting_price := PNone\<rparr>"]) (simp add: check_defs)
  have "list_items (example_env 200) (PStr ''past-5days'') PNone PNone PNone (PStr ''new'') PNone
        (PInt 1) (PInt 500) (PInt 2) (PInt 10) (PInt 0) PNone PNone PNone PNone PNone
        (PStr ''levy'') fresh_world
       = get (example_env 200) ''/items''
           (PDict (search_params (PStr ''past-5days'') PNone PNone PNone (PStr ''new'') PNone
                     (PInt 1) (PInt 500) (PInt 2) (PFloat 10) PNone PNone PNone PNone PNone PNone
                     (PStr ''levy'')))
           False (PBool False) fresh_world"
    by (rule t6 [of "PFloat 10"]) (simp add: search_checks_def check_defs)
  then have 2: "list_items (example_env 200) (PStr ''past-5days'') PNone PNone PNone (PStr ''new'') PNone
        (PInt 1) (PInt 500) (PInt 2) (PInt 10) (PInt 0) PNone PNone PNone PNone PNone
        (PStr ''levy'') fresh_world
       = (Inr (PDict []),
          fresh_world\<lparr>trace :=
            [Sent \<lparr>request_method = GET, url = url_of ''/items'',
                   params = PDict [(''addtime'', PStr ''past-5days''), (''area'', PNone),
                                   (''biddernro'', PNone), (''category'', PNone),
                                   (''classification'', PStr ''new''), (''closingtime'', PNone),
                                   (''feedback_limit'', PInt 1), (''limit'', PInt 500),
                                   (''page'', PInt 2), (''price_min'', PNone),
                                   (''price_max'', PFloat 10), (''seller_type'', PNone),
                                   (''sellernro'', PNone), (''sellstyle'', PNone),
                                   (''sort'', PNone), (''status'', PNone),
                                   (''words'', PStr ''levy'')],
                   headers = [], payload = No_payload, files = PNone\<rparr>]\<rparr>)"
    by (simp add: get_def auth_headers_def search_params_def requests_send_def
          validate_response_def example_env_def fresh_world_def)
  from z sm 1 2 show ?thesis
    by simp
qed

end
